theory Spec2Isabelle
  imports Complex_Main
begin

section \<open>Numbers and vectors\<close>

text \<open>
  JavaScript numbers are modelled as \<^typ>\<open>real\<close>: arithmetic is exact and every value is
  finite. The one operation of the program that can leave the finite numbers under this
  reading is a division by zero (JavaScript yields an infinity or NaN there), so a
  division by a computed value is written as a fallible operation.
\<close>

datatype error =
  TypeError    \<comment> \<open>a method call on \<open>undefined\<close>\<close>
| NonFinite    \<comment> \<open>an infinity or NaN was produced\<close>

text \<open>
  \<open>THREE.Vector3\<close>. The methods used by the scene are written after the library:
  \<^verbatim>\<open>
  add(v)             { this.x += v.x; this.y += v.y; this.z += v.z; }
  sub(v)             { this.x -= v.x; this.y -= v.y; this.z -= v.z; }
  multiplyScalar(s)  { this.x *= s; this.y *= s; this.z *= s; }
  divideScalar(s)    { return this.multiplyScalar(1 / s); }
  length()           { return Math.sqrt(this.x*this.x + this.y*this.y + this.z*this.z); }
  normalize()        { return this.divideScalar(this.length() || 1); }
  distanceToSquared(v) { dx = this.x - v.x, ...; return dx*dx + dy*dy + dz*dz; }
  distanceTo(v)      { return Math.sqrt(this.distanceToSquared(v)); }
  lerp(v, alpha)     { this.x += (v.x - this.x) * alpha; ... }
  \<close>
  The in-place methods return the new value of the receiver.
\<close>

datatype Vector3 = Vector3 (vx: real) (vy: real) (vz: real)

definition add_v :: "Vector3 \<Rightarrow> Vector3 \<Rightarrow> Vector3" where
  "add_v a b = Vector3 (vx a + vx b) (vy a + vy b) (vz a + vz b)"

definition sub_v :: "Vector3 \<Rightarrow> Vector3 \<Rightarrow> Vector3" where
  "sub_v a b = Vector3 (vx a - vx b) (vy a - vy b) (vz a - vz b)"

definition multiplyScalar :: "Vector3 \<Rightarrow> real \<Rightarrow> Vector3" where
  "multiplyScalar a s = Vector3 (vx a * s) (vy a * s) (vz a * s)"

definition divideScalar :: "Vector3 \<Rightarrow> real \<Rightarrow> error + Vector3" where
  "divideScalar a s = (if s = 0 then Inl NonFinite else Inr (multiplyScalar a (1 / s)))"

definition length_v :: "Vector3 \<Rightarrow> real" where
  "length_v a = sqrt (vx a * vx a + vy a * vy a + vz a * vz a)"

definition normalize_v :: "Vector3 \<Rightarrow> error + Vector3" where
  "normalize_v a = divideScalar a (if length_v a = 0 then 1 else length_v a)"

definition distanceToSquared :: "Vector3 \<Rightarrow> Vector3 \<Rightarrow> real" where
  "distanceToSquared a b =
     (let dx = vx a - vx b; dy = vy a - vy b; dz = vz a - vz b
      in dx * dx + dy * dy + dz * dz)"

definition distanceTo :: "Vector3 \<Rightarrow> Vector3 \<Rightarrow> real" where
  "distanceTo a b = sqrt (distanceToSquared a b)"

definition lerp :: "Vector3 \<Rightarrow> Vector3 \<Rightarrow> real \<Rightarrow> Vector3" where
  "lerp a b alpha =
     Vector3 (vx a + (vx b - vx a) * alpha) (vy a + (vy b - vy a) * alpha)
       (vz a + (vz b - vz a) * alpha)"

section \<open>The scene's constants\<close>

definition MOON_RADIUS :: real where "MOON_RADIUS = 3"
definition GRAVITY_STRENGTH :: real where "GRAVITY_STRENGTH = 0.02"
definition REPULSION_STRENGTH :: real where "REPULSION_STRENGTH = 0.3"
definition DAMPING :: real where "DAMPING = 0.95"
definition MOUSE_INFLUENCE_RADIUS :: real where "MOUSE_INFLUENCE_RADIUS = 4"
definition OBJECT_SPACING :: real where "OBJECT_SPACING = 0.6"

definition calculateDistance :: "Vector3 \<Rightarrow> Vector3 \<Rightarrow> real" where
  "calculateDistance pos1 pos2 = distanceTo pos1 pos2"

section \<open>A floating object and its per-frame callback\<close>

text \<open>
  The state one \<open>FloatingObject\<close> keeps between frames: its index into \<open>allObjects\<close>, the
  position of its mesh (\<open>None\<close> while \<open>meshRef.current\<close> is null), \<open>velocityRef.current\<close>
  and the hover flag.
\<close>

record FloatingObject =
  index :: nat
  mesh :: "Vector3 option"
  velocity :: Vector3
  isHovered :: bool

text \<open>What \<open>useThree\<close> hands to the callback: the pointer and the viewport.\<close>

record RootState =
  mouse_x :: real
  mouse_y :: real
  viewport_width :: real
  viewport_height :: real

definition moonCenter :: Vector3 where
  "moonCenter = Vector3 0 0 0"

definition mousePosition :: "RootState \<Rightarrow> Vector3" where
  "mousePosition s =
     Vector3 ((mouse_x s * viewport_width s) / 2) ((mouse_y s * viewport_height s) / 2) 0"

text \<open>The target of the hover spring: \<open>scale: isHovered ? 1.1 : 1\<close>.\<close>

definition scale_target :: "FloatingObject \<Rightarrow> real" where
  "scale_target b = (if isHovered b then 1.1 else 1)"

text \<open>\<open>velocity.multiplyScalar(DAMPING)\<close>\<close>

definition damping :: "Vector3 \<Rightarrow> Vector3" where
  "damping v = multiplyScalar v DAMPING"

text \<open>The pull towards the moon: \<open>if (distanceToMoon > MOON_RADIUS) { ... }\<close>\<close>

definition gravity :: "real \<Rightarrow> Vector3 \<Rightarrow> Vector3 \<Rightarrow> error + Vector3" where
  "gravity distanceToMoon objectPosition v =
     (if distanceToMoon > MOON_RADIUS then
        (case normalize_v (sub_v moonCenter objectPosition) of
           Inl e \<Rightarrow> Inl e
         | Inr gravityDirection \<Rightarrow>
             Inr (add_v v (multiplyScalar gravityDirection GRAVITY_STRENGTH)))
      else Inr v)"

text \<open>The push away from the pointer: \<open>if (distanceToMouse < MOUSE_INFLUENCE_RADIUS) { ... }\<close>\<close>

definition repulsion :: "real \<Rightarrow> Vector3 \<Rightarrow> Vector3 \<Rightarrow> Vector3 \<Rightarrow> error + Vector3" where
  "repulsion distanceToMouse objectPosition mousePos v =
     (if distanceToMouse < MOUSE_INFLUENCE_RADIUS then
        (case normalize_v (sub_v objectPosition mousePos) of
           Inl e \<Rightarrow> Inl e
         | Inr repulsionDirection \<Rightarrow>
             (let repulsionStrength =
                    REPULSION_STRENGTH * (1 - distanceToMouse / MOUSE_INFLUENCE_RADIUS)
              in Inr (add_v v (multiplyScalar repulsionDirection repulsionStrength))))
      else Inr v)"

text \<open>
  \<open>allObjects.forEach((otherPos, i) => { if (i !== index) ... })\<close>: the elements from
  position \<open>i\<close> on, in order. Neither the array nor the object's position changes during
  the loop.
\<close>

fun forEach_avoid :: "nat \<Rightarrow> Vector3 \<Rightarrow> nat \<Rightarrow> Vector3 list \<Rightarrow> Vector3 \<Rightarrow> error + Vector3" where
  "forEach_avoid idx objectPosition i [] v = Inr v"
| "forEach_avoid idx objectPosition i (otherPos # rest) v =
     (if i \<noteq> idx then
        (let distanceToObject = calculateDistance objectPosition otherPos in
         if distanceToObject < OBJECT_SPACING then
           (case normalize_v (sub_v objectPosition otherPos) of
              Inl e \<Rightarrow> Inl e
            | Inr avoidanceDirection \<Rightarrow>
                forEach_avoid idx objectPosition (Suc i) rest
                  (add_v v (multiplyScalar avoidanceDirection 0.02)))
         else forEach_avoid idx objectPosition (Suc i) rest v)
      else forEach_avoid idx objectPosition (Suc i) rest v)"

definition avoidance :: "nat \<Rightarrow> Vector3 \<Rightarrow> Vector3 list \<Rightarrow> Vector3 \<Rightarrow> error + Vector3" where
  "avoidance idx objectPosition allObjects v = forEach_avoid idx objectPosition 0 allObjects v"

text \<open>
  The velocity after damping and the three forces. Both distances are taken from the
  position the object has when the callback starts.
\<close>

definition update_velocity ::
  "RootState \<Rightarrow> Vector3 list \<Rightarrow> nat \<Rightarrow> Vector3 \<Rightarrow> Vector3 \<Rightarrow> error + Vector3" where
  "update_velocity s allObjects idx objectPosition v =
     (let mousePos = mousePosition s;
          distanceToMoon = calculateDistance objectPosition moonCenter;
          distanceToMouse = calculateDistance objectPosition mousePos
      in case gravity distanceToMoon objectPosition (damping v) of
           Inl e \<Rightarrow> Inl e
         | Inr v1 \<Rightarrow>
             (case repulsion distanceToMouse objectPosition mousePos v1 of
                Inl e \<Rightarrow> Inl e
              | Inr v2 \<Rightarrow> avoidance idx objectPosition allObjects v2))"

text \<open>
  None of the three guards of the forces holds: the object is not further than
  \<open>MOON_RADIUS\<close> from the centre, not nearer than \<open>MOUSE_INFLUENCE_RADIUS\<close> to the
  pointer, and no other entry of \<open>allObjects\<close> is nearer than \<open>OBJECT_SPACING\<close>.
\<close>

definition no_force :: "RootState \<Rightarrow> Vector3 list \<Rightarrow> nat \<Rightarrow> Vector3 \<Rightarrow> bool" where
  "no_force s allObjects idx objectPosition \<longleftrightarrow>
     \<not> calculateDistance objectPosition moonCenter > MOON_RADIUS \<and>
     \<not> calculateDistance objectPosition (mousePosition s) < MOUSE_INFLUENCE_RADIUS \<and>
     (\<forall>i<length allObjects. i \<noteq> idx \<longrightarrow>
        \<not> calculateDistance objectPosition (allObjects ! i) < OBJECT_SPACING)"

text \<open>
  \<open>mesh.position.add(velocity)\<close> and the pull onto the shell of radius
  \<open>MOON_RADIUS + 0.5\<close>. \<open>distanceToMoon\<close> is the constant computed when the callback
  started; \<open>objectPosition\<close> is the same object as \<open>mesh.position\<close>, so \<open>normal\<close> is taken
  from the position after the addition.
\<close>

definition integrate :: "real \<Rightarrow> Vector3 \<Rightarrow> Vector3 \<Rightarrow> error + (Vector3 \<times> Vector3)" where
  "integrate distanceToMoon position0 v =
     (let position1 = add_v position0 v in
      if distanceToMoon < MOON_RADIUS + 0.5 then
        (case normalize_v position1 of
           Inl e \<Rightarrow> Inl e
         | Inr normal \<Rightarrow>
             (let targetPos = multiplyScalar normal (MOON_RADIUS + 0.5)
              in Inr (lerp position1 targetPos 0.2, multiplyScalar v 0.8)))
      else Inr (position1, v))"

text \<open>
  The callback given to \<open>useFrame\<close>. It returns at once while the mesh is not mounted;
  \<open>allObjects[index].copy(...)\<close> throws when the index is outside the array.
\<close>

definition useFrame_callback ::
  "RootState \<Rightarrow> Vector3 list \<Rightarrow> FloatingObject \<Rightarrow> error + (FloatingObject \<times> Vector3 list)" where
  "useFrame_callback s allObjects b =
     (case mesh b of
        None \<Rightarrow> Inr (b, allObjects)
      | Some objectPosition \<Rightarrow>
          (case update_velocity s allObjects (index b) objectPosition (velocity b) of
             Inl e \<Rightarrow> Inl e
           | Inr v \<Rightarrow>
               (case integrate (calculateDistance objectPosition moonCenter) objectPosition v of
                  Inl e \<Rightarrow> Inl e
                | Inr (position', v') \<Rightarrow>
                    if index b < length allObjects then
                      Inr (b\<lparr>mesh := Some position', velocity := v'\<rparr>,
                           allObjects[index b := position'])
                    else Inl TypeError)))"

section \<open>One frame over all objects\<close>

text \<open>
  Modelled from the spec: the driver that runs the registered callbacks once per rendered
  frame belongs to the rendering framework and is not part of the source. The spec gives
  it as \<open>for each frame: for i in 0..N: integrate(i)\<close>: one pass calls the callback of
  every object, in ascending index order, each on the array \<open>allObjects\<close> as the calls
  before it left it. The objects are listed in index order, as \<open>Scene\<close> creates them.
\<close>

fun frame ::
  "RootState \<Rightarrow> Vector3 list \<Rightarrow> FloatingObject list \<Rightarrow> error + (FloatingObject list \<times> Vector3 list)" where
  "frame s allObjects [] = Inr ([], allObjects)"
| "frame s allObjects (b # bs) =
     (case useFrame_callback s allObjects b of
        Inl e \<Rightarrow> Inl e
      | Inr (b', allObjects') \<Rightarrow>
          (case frame s allObjects' bs of
             Inl e \<Rightarrow> Inl e
           | Inr (bs', allObjects'') \<Rightarrow> Inr (b' # bs', allObjects'')))"

text \<open>
  \<open>Scene\<close> creates one \<open>FloatingObject\<close> per entry of \<open>objectPositions\<close>, with the entry's
  index; once mounted, its mesh sits at the entry's position, its velocity is zero and it
  is not hovered.
\<close>

definition mount :: "nat \<Rightarrow> Vector3 \<Rightarrow> FloatingObject" where
  "mount i position0 =
     \<lparr>index = i, mesh = Some position0, velocity = Vector3 0 0 0, isHovered = False\<rparr>"

definition mount_all :: "Vector3 list \<Rightarrow> FloatingObject list" where
  "mount_all objectPositions = map (\<lambda>(i, p). mount i p) (enumerate 0 objectPositions)"

section \<open>The hover flag over several frames\<close>

text \<open>
  \<open>setIsHovered\<close>, called with \<open>true\<close> by \<open>onPointerOver\<close> and with \<open>false\<close> by
  \<open>onPointerOut\<close>.
\<close>

definition setIsHovered :: "bool \<Rightarrow> FloatingObject \<Rightarrow> FloatingObject" where
  "setIsHovered h b = b\<lparr>isHovered := h\<rparr>"

text \<open>
  Modelled from the spec: when the callback of one object is called, and with what, is
  decided outside the source. The spec has one call per frame, pointer events only
  between frames, and \<open>allObjects\<close> changed by the other objects in between. A run of one
  object is therefore a list of frames, each with the pointer and viewport, the array as
  the object finds it and the hover flag the events have left; it yields, frame by frame,
  the position, the velocity and the array after the call, and ends when a call throws.
\<close>

fun run_callback ::
  "(RootState \<times> Vector3 list \<times> bool) list \<Rightarrow> FloatingObject \<Rightarrow>
   (error + (Vector3 option \<times> Vector3 \<times> Vector3 list)) list" where
  "run_callback [] b = []"
| "run_callback ((s, allObjects, h) # rest) b =
     (case useFrame_callback s allObjects (setIsHovered h b) of
        Inl e \<Rightarrow> [Inl e]
      | Inr (b', allObjects') \<Rightarrow>
          Inr (mesh b', velocity b', allObjects') # run_callback rest b')"

section \<open>The initial layout\<close>

text \<open>
  The initialiser of \<open>objectPositions\<close> in \<open>Scene\<close>. \<open>Math.random()\<close> is a sequence of
  draws: \<open>random k\<close> is the value of the \<open>k\<close>-th call, and the loops pass on the number
  of calls made so far.
\<close>

definition totalObjects :: nat where "totalObjects = 48"

definition objectsInLayer :: nat where
  "objectsInLayer = nat \<lfloor>real totalObjects / 3\<rfloor>"

function layer_loop ::
  "(nat \<Rightarrow> real) \<Rightarrow> nat \<Rightarrow> nat \<Rightarrow> Vector3 list \<times> nat \<Rightarrow> Vector3 list \<times> nat" where
  "layer_loop random layer i (positions, k) =
     (if i < objectsInLayer then
        (let layerOffset = real layer * 1.5;
             angle = (real i / real objectsInLayer) * pi * 2;
             radius = 5 + random k * 2;
             y = (random (Suc k) - 0.5) * 4 + layerOffset
         in layer_loop random layer (Suc i)
              (positions @ [Vector3 (cos angle * radius) y (sin angle * radius)], k + 2))
      else (positions, k))"
  by pat_completeness auto
termination
  by (relation "measure (\<lambda>(random, layer, i, st). objectsInLayer - i)") auto

function layers_loop :: "(nat \<Rightarrow> real) \<Rightarrow> nat \<Rightarrow> Vector3 list \<times> nat \<Rightarrow> Vector3 list \<times> nat" where
  "layers_loop random layer st =
     (if layer < 3 then layers_loop random (Suc layer) (layer_loop random layer 0 st)
      else st)"
  by pat_completeness auto
termination
  by (relation "measure (\<lambda>(random, layer, st). 3 - layer)") auto

definition objectPositions :: "(nat \<Rightarrow> real) \<Rightarrow> Vector3 list" where
  "objectPositions random = fst (layers_loop random 0 ([], 0))"

section \<open>Inputs used in the examples\<close>

text \<open>A pointer far from everything: its scene position is \<open>(100, 0, 0)\<close>.\<close>

definition far_pointer :: RootState where
  "far_pointer = \<lparr>mouse_x = 1, mouse_y = 0, viewport_width = 200, viewport_height = 100\<rparr>"

text \<open>A pointer at the scene position \<open>(12, 0, 0)\<close>.\<close>

definition near_pointer :: RootState where
  "near_pointer = \<lparr>mouse_x = 1, mouse_y = 0, viewport_width = 24, viewport_height = 10\<rparr>"

text \<open>An object on the x axis with a velocity along it, alone in \<open>allObjects\<close>.\<close>

definition on_axis :: "real \<Rightarrow> real \<Rightarrow> FloatingObject" where
  "on_axis a u = \<lparr>index = 0, mesh = Some (Vector3 a 0 0), velocity = Vector3 u 0 0, isHovered = False\<rparr>"

section \<open>Facts about the vector operations\<close>

lemmas vec_simps = add_v_def sub_v_def multiplyScalar_def lerp_def moonCenter_def
  mousePosition_def damping_def MOON_RADIUS_def GRAVITY_STRENGTH_def REPULSION_STRENGTH_def
  DAMPING_def MOUSE_INFLUENCE_RADIUS_def OBJECT_SPACING_def

lemma length_v_multiplyScalar: "length_v (multiplyScalar a s) = \<bar>s\<bar> * length_v a"
proof -
  have "vx a * s * (vx a * s) + vy a * s * (vy a * s) + vz a * s * (vz a * s)
        = s\<^sup>2 * (vx a * vx a + vy a * vy a + vz a * vz a)"
    by (simp add: power2_eq_square algebra_simps)
  then show ?thesis
    by (simp add: length_v_def multiplyScalar_def real_sqrt_mult)
qed

lemma normalize_v_Inr:
  "normalize_v a = Inr (multiplyScalar a (1 / (if length_v a = 0 then 1 else length_v a)))"
  by (simp add: normalize_v_def divideScalar_def)

lemma length_v_x_axis: "length_v (Vector3 a 0 0) = \<bar>a\<bar>"
  by (simp add: length_v_def)

lemma calculateDistance_x_axis: "calculateDistance (Vector3 a 0 0) (Vector3 b 0 0) = \<bar>a - b\<bar>"
  by (simp add: calculateDistance_def distanceTo_def distanceToSquared_def Let_def)

lemma normalize_v_x_axis: "normalize_v (Vector3 a 0 0) = Inr (Vector3 (sgn a) 0 0)"
  by (simp add: normalize_v_Inr length_v_x_axis multiplyScalar_def sgn_real_def)

section \<open>The callback always returns a state for a mounted object\<close>

lemma forEach_avoid_total: "\<exists>v'. forEach_avoid idx p i xs v = Inr v'"
  by (induction xs arbitrary: i v) (simp_all add: normalize_v_Inr Let_def)

lemma gravity_total: "\<exists>v'. gravity d p v = Inr v'"
  by (simp add: gravity_def normalize_v_Inr)

lemma repulsion_total: "\<exists>v'. repulsion d p m v = Inr v'"
  by (simp add: repulsion_def normalize_v_Inr Let_def)

lemma update_velocity_total: "\<exists>v'. update_velocity s allObjects idx p v = Inr v'"
proof -
  obtain v1 where v1: "gravity (calculateDistance p moonCenter) p (damping v) = Inr v1"
    using gravity_total by blast
  obtain v2 where v2: "repulsion (calculateDistance p (mousePosition s)) p (mousePosition s) v1 = Inr v2"
    using repulsion_total by blast
  show ?thesis
    using forEach_avoid_total [of idx p 0 allObjects v2]
    by (simp add: update_velocity_def Let_def v1 v2 avoidance_def)
qed

lemma useFrame_callback_result:
  assumes "mesh b = Some p" and "index b < length allObjects"
  shows "\<exists>v normal.
           update_velocity s allObjects (index b) p (velocity b) = Inr v \<and>
           normalize_v (add_v p v) = Inr normal \<and>
           useFrame_callback s allObjects b =
             (if calculateDistance p moonCenter < MOON_RADIUS + 0.5 then
                Inr (b\<lparr>mesh := Some (lerp (add_v p v) (multiplyScalar normal (MOON_RADIUS + 0.5)) 0.2),
                        velocity := multiplyScalar v 0.8\<rparr>,
                     allObjects[index b := lerp (add_v p v) (multiplyScalar normal (MOON_RADIUS + 0.5)) 0.2])
              else Inr (b\<lparr>mesh := Some (add_v p v), velocity := v\<rparr>,
                        allObjects[index b := add_v p v]))"
proof -
  obtain v where v: "update_velocity s allObjects (index b) p (velocity b) = Inr v"
    using update_velocity_total by blast
  obtain normal where n: "normalize_v (add_v p v) = Inr normal"
    by (simp add: normalize_v_Inr)
  show ?thesis
    using assms v n by (auto simp: useFrame_callback_def integrate_def Let_def)
qed

section \<open>When the surface correction is applied\<close>

text \<open>
  C1, as the spec states it, fails: an object that starts the callback at distance 3.6 from
  the moon's centre and moves inwards has the velocity \<open>(-0.97, 0, 0)\<close> after the forces,
  and \<open>position += velocity\<close> puts it at distance 2.63, inside the shell of radius
  \<open>MOON_RADIUS + 0.5 = 3.5\<close>. The callback still leaves it at the added position with the
  velocity unscaled: the correction, which would have put it at \<open>(2.804, 0, 0)\<close> with
  velocity \<open>(-0.776, 0, 0)\<close>, is not applied.
\<close>

theorem surface_trigger_counterexample:
  "update_velocity far_pointer [Vector3 3.6 0 0] 0 (Vector3 3.6 0 0) (Vector3 (-1) 0 0)
     = Inr (Vector3 (-0.97) 0 0) \<and>
   add_v (Vector3 3.6 0 0) (Vector3 (-0.97) 0 0) = Vector3 2.63 0 0 \<and>
   calculateDistance (Vector3 2.63 0 0) moonCenter < MOON_RADIUS + 0.5 \<and>
   useFrame_callback far_pointer [Vector3 3.6 0 0] (on_axis 3.6 (-1))
     = Inr (\<lparr>index = 0, mesh = Some (Vector3 2.63 0 0), velocity = Vector3 (-0.97) 0 0,
             isHovered = False\<rparr>, [Vector3 2.63 0 0]) \<and>
   normalize_v (Vector3 2.63 0 0) = Inr (Vector3 1 0 0) \<and>
   lerp (Vector3 2.63 0 0) (multiplyScalar (Vector3 1 0 0) (MOON_RADIUS + 0.5)) 0.2
     = Vector3 2.804 0 0 \<and>
   multiplyScalar (Vector3 (-0.97) 0 0) 0.8 = Vector3 (-0.776) 0 0"
proof -
  have v: "update_velocity far_pointer [Vector3 3.6 0 0] 0 (Vector3 3.6 0 0) (Vector3 (-1) 0 0)
     = Inr (Vector3 (-0.97) 0 0)"
    by (simp add: update_velocity_def gravity_def repulsion_def avoidance_def Let_def vec_simps
        far_pointer_def calculateDistance_x_axis normalize_v_x_axis)
  show ?thesis
    using v
    by (simp add: useFrame_callback_def integrate_def Let_def vec_simps on_axis_def
        calculateDistance_x_axis normalize_v_x_axis)
qed

text \<open>
  C1, amended: for a mounted object, with \<open>v\<close> the velocity after damping and the forces,
  the surface correction (the position moved 20% of the way from \<open>position + v\<close> towards
  \<open>normalize(position + v) * (R + 0.5)\<close>, the velocity scaled by 0.8) is applied exactly
  when the distance to the centre of the position the object had when the callback
  started, before \<open>position += velocity\<close>, is less than \<open>R + 0.5\<close>; otherwise the object
  is left at \<open>position + v\<close> with velocity \<open>v\<close>.
\<close>

theorem surface_trigger_at_callback_start:
  assumes "mesh b = Some p" and "index b < length allObjects"
  shows "\<exists>v normal b' allObjects'.
           update_velocity s allObjects (index b) p (velocity b) = Inr v \<and>
           normalize_v (add_v p v) = Inr normal \<and>
           useFrame_callback s allObjects b = Inr (b', allObjects') \<and>
           (mesh b', velocity b') =
             (if calculateDistance p moonCenter < MOON_RADIUS + 0.5
              then (Some (lerp (add_v p v) (multiplyScalar normal (MOON_RADIUS + 0.5)) 0.2),
                    multiplyScalar v 0.8)
              else (Some (add_v p v), v))"
proof -
  obtain v normal where
    "update_velocity s allObjects (index b) p (velocity b) = Inr v"
    "normalize_v (add_v p v) = Inr normal"
    "useFrame_callback s allObjects b =
             (if calculateDistance p moonCenter < MOON_RADIUS + 0.5 then
                Inr (b\<lparr>mesh := Some (lerp (add_v p v) (multiplyScalar normal (MOON_RADIUS + 0.5)) 0.2),
                        velocity := multiplyScalar v 0.8\<rparr>,
                     allObjects[index b := lerp (add_v p v) (multiplyScalar normal (MOON_RADIUS + 0.5)) 0.2])
              else Inr (b\<lparr>mesh := Some (add_v p v), velocity := v\<rparr>,
                        allObjects[index b := add_v p v]))"
    using useFrame_callback_result [OF assms, of s] by blast
  then show ?thesis by (cases "calculateDistance p moonCenter < MOON_RADIUS + 0.5") simp_all
qed

theorem surface_trigger_at_callback_start_witness:
  "mesh (on_axis 3.6 (-1)) = Some (Vector3 3.6 0 0) \<and>
   index (on_axis 3.6 (-1)) < length [Vector3 3.6 0 0] \<and>
   \<not> calculateDistance (Vector3 3.6 0 0) moonCenter < MOON_RADIUS + 0.5 \<and>
   (\<exists>v b' allObjects'.
      update_velocity far_pointer [Vector3 3.6 0 0] 0 (Vector3 3.6 0 0) (Vector3 (-1) 0 0) = Inr v \<and>
      useFrame_callback far_pointer [Vector3 3.6 0 0] (on_axis 3.6 (-1)) = Inr (b', allObjects') \<and>
      mesh b' = Some (add_v (Vector3 3.6 0 0) v) \<and> velocity b' = v)"
proof -
  have m: "mesh (on_axis 3.6 (-1)) = Some (Vector3 3.6 0 0)"
    and i: "index (on_axis 3.6 (-1)) < length [Vector3 3.6 0 0]"
    by (simp_all add: on_axis_def)
  have d: "\<not> calculateDistance (Vector3 3.6 0 0) moonCenter < MOON_RADIUS + 0.5"
    by (simp add: moonCenter_def calculateDistance_x_axis MOON_RADIUS_def)
  show ?thesis
    using surface_trigger_at_callback_start [OF m i, of far_pointer] m i d
    by (auto simp: on_axis_def)
qed

text \<open>
  C10: the test that guards the surface correction reads \<open>distanceToMoon\<close>, the distance
  of the position before \<open>position += velocity\<close>, while the shell point is
  \<open>normalize(position + v) * (R + 0.5)\<close>, taken from the position after it. So an object
  that starts at distance \<open>R + 0.5\<close> or more gets no correction that frame, and one that
  starts nearer than \<open>R + 0.5\<close> gets it, wherever the addition carries them. In the
  examples the first object starts at 3.6 and lands at 2.63, inside the shell, uncorrected;
  the second starts at 3.4, lands at 4.33, outside the shell, and is corrected to 4.164.
\<close>

theorem surface_trigger_ignores_integration:
  assumes "mesh b = Some p" and "index b < length allObjects"
  shows "\<exists>v normal.
           update_velocity s allObjects (index b) p (velocity b) = Inr v \<and>
           normalize_v (add_v p v) = Inr normal \<and>
           (MOON_RADIUS + 0.5 \<le> calculateDistance p moonCenter \<longrightarrow>
              useFrame_callback s allObjects b =
                Inr (b\<lparr>mesh := Some (add_v p v), velocity := v\<rparr>,
                     allObjects[index b := add_v p v])) \<and>
           (calculateDistance p moonCenter < MOON_RADIUS + 0.5 \<longrightarrow>
              useFrame_callback s allObjects b =
                Inr (b\<lparr>mesh := Some (lerp (add_v p v) (multiplyScalar normal (MOON_RADIUS + 0.5)) 0.2),
                        velocity := multiplyScalar v 0.8\<rparr>,
                     allObjects[index b := lerp (add_v p v) (multiplyScalar normal (MOON_RADIUS + 0.5)) 0.2]))"
  using useFrame_callback_result [OF assms, of s] by force

theorem surface_trigger_ignores_integration_witness:
  "(MOON_RADIUS + 0.5 \<le> calculateDistance (Vector3 3.6 0 0) moonCenter \<and>
    update_velocity far_pointer [Vector3 3.6 0 0] 0 (Vector3 3.6 0 0) (Vector3 (-1) 0 0)
      = Inr (Vector3 (-0.97) 0 0) \<and>
    calculateDistance (add_v (Vector3 3.6 0 0) (Vector3 (-0.97) 0 0)) moonCenter < MOON_RADIUS + 0.5 \<and>
    useFrame_callback far_pointer [Vector3 3.6 0 0] (on_axis 3.6 (-1))
     = Inr (on_axis 2.63 (-0.97), [Vector3 2.63 0 0])) \<and>
   (calculateDistance (Vector3 3.4 0 0) moonCenter < MOON_RADIUS + 0.5 \<and>
    update_velocity far_pointer [Vector3 3.4 0 0] 0 (Vector3 3.4 0 0) (Vector3 1 0 0)
      = Inr (Vector3 0.93 0 0) \<and>
    MOON_RADIUS + 0.5 \<le> calculateDistance (add_v (Vector3 3.4 0 0) (Vector3 0.93 0 0)) moonCenter \<and>
    normalize_v (add_v (Vector3 3.4 0 0) (Vector3 0.93 0 0)) = Inr (Vector3 1 0 0) \<and>
    useFrame_callback far_pointer [Vector3 3.4 0 0] (on_axis 3.4 1)
     = Inr (on_axis 4.164 0.744, [Vector3 4.164 0 0]))"
proof -
  have m1: "mesh (on_axis 3.6 (-1)) = Some (Vector3 3.6 0 0)"
    and i1: "index (on_axis 3.6 (-1)) < length [Vector3 3.6 0 0]"
    and m2: "mesh (on_axis 3.4 1) = Some (Vector3 3.4 0 0)"
    and i2: "index (on_axis 3.4 1) < length [Vector3 3.4 0 0]"
    by (simp_all add: on_axis_def)
  have v1: "update_velocity far_pointer [Vector3 3.6 0 0] 0 (Vector3 3.6 0 0) (Vector3 (-1) 0 0)
      = Inr (Vector3 (-0.97) 0 0)"
    and v2: "update_velocity far_pointer [Vector3 3.4 0 0] 0 (Vector3 3.4 0 0) (Vector3 1 0 0)
      = Inr (Vector3 0.93 0 0)"
    by (simp_all add: update_velocity_def gravity_def repulsion_def avoidance_def Let_def vec_simps
        far_pointer_def calculateDistance_x_axis normalize_v_x_axis)
  have d: "MOON_RADIUS + 0.5 \<le> calculateDistance (Vector3 3.6 0 0) moonCenter"
    "calculateDistance (add_v (Vector3 3.6 0 0) (Vector3 (-0.97) 0 0)) moonCenter < MOON_RADIUS + 0.5"
    "calculateDistance (Vector3 3.4 0 0) moonCenter < MOON_RADIUS + 0.5"
    "MOON_RADIUS + 0.5 \<le> calculateDistance (add_v (Vector3 3.4 0 0) (Vector3 0.93 0 0)) moonCenter"
    by (simp_all add: vec_simps calculateDistance_x_axis)
  have n: "normalize_v (add_v (Vector3 3.4 0 0) (Vector3 0.93 0 0)) = Inr (Vector3 1 0 0)"
    by (simp add: add_v_def normalize_v_x_axis)
  have r1: "useFrame_callback far_pointer [Vector3 3.6 0 0] (on_axis 3.6 (-1))
     = Inr (on_axis 2.63 (-0.97), [Vector3 2.63 0 0])"
    using surface_trigger_ignores_integration [OF m1 i1, of far_pointer] v1 d(1)
    by (simp add: on_axis_def add_v_def)
  have r2: "useFrame_callback far_pointer [Vector3 3.4 0 0] (on_axis 3.4 1)
     = Inr (on_axis 4.164 0.744, [Vector3 4.164 0 0])"
    using surface_trigger_ignores_integration [OF m2 i2, of far_pointer] v2 d(3) n
    by (simp add: on_axis_def vec_simps)
  show ?thesis using v1 v2 d n r1 r2 by simp
qed

section \<open>Distances, directions and the forces that do not act\<close>

lemma length_v_sub_v: "length_v (sub_v a b) = calculateDistance a b"
  by (simp add: length_v_def sub_v_def calculateDistance_def distanceTo_def
      distanceToSquared_def Let_def)

lemma calculateDistance_commute: "calculateDistance a b = calculateDistance b a"
  by (simp add: calculateDistance_def distanceTo_def distanceToSquared_def Let_def
      power2_commute [of "vx a" "vx b", unfolded power2_eq_square]
      power2_commute [of "vy a" "vy b", unfolded power2_eq_square]
      power2_commute [of "vz a" "vz b", unfolded power2_eq_square])

lemma normalize_v_sub_v:
  "0 < calculateDistance a b \<Longrightarrow>
   normalize_v (sub_v a b) = Inr (multiplyScalar (sub_v a b) (1 / calculateDistance a b))"
  by (simp add: normalize_v_Inr length_v_sub_v)

lemma forEach_avoid_none:
  "(\<forall>j<length xs. i + j \<noteq> idx \<longrightarrow> \<not> calculateDistance p (xs ! j) < OBJECT_SPACING) \<Longrightarrow>
   forEach_avoid idx p i xs v = Inr v"
proof (induction xs arbitrary: i v)
  case Nil
  then show ?case by simp
next
  case (Cons x xs)
  have rest: "\<forall>j<length xs. Suc i + j \<noteq> idx \<longrightarrow> \<not> calculateDistance p (xs ! j) < OBJECT_SPACING"
    using Cons.prems by force
  have head: "i \<noteq> idx \<longrightarrow> \<not> calculateDistance p x < OBJECT_SPACING"
    using Cons.prems by force
  show ?case using Cons.IH [OF rest] head by (auto simp: Let_def)
qed

lemma avoidance_none:
  "(\<forall>i<length allObjects. i \<noteq> idx \<longrightarrow> \<not> calculateDistance p (allObjects ! i) < OBJECT_SPACING) \<Longrightarrow>
   avoidance idx p allObjects v = Inr v"
  unfolding avoidance_def by (rule forEach_avoid_none) simp

lemma update_velocity_alone:
  assumes "\<not> calculateDistance p (mousePosition s) < MOUSE_INFLUENCE_RADIUS"
    and "\<forall>i<length allObjects. i \<noteq> idx \<longrightarrow> \<not> calculateDistance p (allObjects ! i) < OBJECT_SPACING"
  shows "update_velocity s allObjects idx p v = gravity (calculateDistance p moonCenter) p (damping v)"
proof -
  obtain v1 where v1: "gravity (calculateDistance p moonCenter) p (damping v) = Inr v1"
    using gravity_total by blast
  show ?thesis
    using assms(1) avoidance_none [OF assms(2)]
    by (simp add: update_velocity_def Let_def v1 repulsion_def)
qed

section \<open>Attraction\<close>

text \<open>
  C4, as the spec states it, fails in its second half: an object inside the moon's radius
  (distance 1), with the pointer far away and no other object, has the damped velocity
  \<open>(0.95, 0, 0)\<close>, but the callback leaves it with \<open>(0.76, 0, 0)\<close>: every object
  within \<open>MOON_RADIUS\<close> is also within \<open>MOON_RADIUS + 0.5\<close>, so the surface correction
  scales its velocity by 0.8 as well.
\<close>

theorem attraction_inside_counterexample:
  "calculateDistance (Vector3 1 0 0) moonCenter \<le> MOON_RADIUS \<and>
   \<not> calculateDistance (Vector3 1 0 0) (mousePosition far_pointer) < MOUSE_INFLUENCE_RADIUS \<and>
   useFrame_callback far_pointer [Vector3 1 0 0] (on_axis 1 1)
     = Inr (on_axis 2.26 0.76, [Vector3 2.26 0 0]) \<and>
   damping (velocity (on_axis 1 1)) = Vector3 0.95 0 0 \<and>
   velocity (on_axis 2.26 0.76) \<noteq> damping (velocity (on_axis 1 1))"
proof -
  have v: "update_velocity far_pointer [Vector3 1 0 0] 0 (Vector3 1 0 0) (Vector3 1 0 0)
     = Inr (Vector3 0.95 0 0)"
    by (simp add: update_velocity_def gravity_def repulsion_def avoidance_def Let_def vec_simps
        far_pointer_def calculateDistance_x_axis normalize_v_x_axis)
  show ?thesis
    using v
    by (simp add: useFrame_callback_def integrate_def Let_def vec_simps on_axis_def
        far_pointer_def calculateDistance_x_axis normalize_v_x_axis)
qed

text \<open>
  C4, amended: attraction is one-sided. For every object the pull adds
  \<open>normalize(center - position) * 0.02\<close> to the velocity when the distance to the centre
  is greater than \<open>R\<close>, and adds nothing otherwise. With the pointer out of reach and no
  other object within the spacing, the velocity after the callback is the damped velocity
  plus that term when the distance is at least \<open>R + 0.5\<close>, the same scaled by 0.8 when the
  distance is between \<open>R\<close> and \<open>R + 0.5\<close>, and for a distance of at most \<open>R\<close> the damped
  velocity scaled by 0.8: no attraction term, only the damping and the surface
  correction's scaling. An object outside \<open>R\<close> with zero velocity gains speed, along the
  direction from its position to the centre.
\<close>

theorem attraction_one_sided:
  assumes "mesh b = Some p" and "index b < length allObjects"
  shows "\<exists>g. normalize_v (sub_v moonCenter p) = Inr g \<and>
     (\<forall>d v. gravity d p v =
        (if MOON_RADIUS < d then Inr (add_v v (multiplyScalar g GRAVITY_STRENGTH)) else Inr v)) \<and>
     (\<not> calculateDistance p (mousePosition s) < MOUSE_INFLUENCE_RADIUS \<and>
      (\<forall>i<length allObjects. i \<noteq> index b \<longrightarrow>
          \<not> calculateDistance p (allObjects ! i) < OBJECT_SPACING) \<longrightarrow>
      (\<exists>b' allObjects'.
         useFrame_callback s allObjects b = Inr (b', allObjects') \<and>
         velocity b' =
           (if MOON_RADIUS + 0.5 \<le> calculateDistance p moonCenter then
              add_v (damping (velocity b)) (multiplyScalar g GRAVITY_STRENGTH)
            else if MOON_RADIUS < calculateDistance p moonCenter then
              multiplyScalar (add_v (damping (velocity b)) (multiplyScalar g GRAVITY_STRENGTH)) 0.8
            else multiplyScalar (damping (velocity b)) 0.8) \<and>
         (MOON_RADIUS < calculateDistance p moonCenter \<and> velocity b = Vector3 0 0 0 \<longrightarrow>
            length_v (velocity b) < length_v (velocity b') \<and>
            (\<exists>c>0. velocity b' = multiplyScalar (sub_v moonCenter p) c))))"
proof -
  let ?d = "calculateDistance p moonCenter"
  obtain g where g: "normalize_v (sub_v moonCenter p) = Inr g"
    by (simp add: normalize_v_Inr)
  have grav: "\<forall>d v. gravity d p v =
        (if MOON_RADIUS < d then Inr (add_v v (multiplyScalar g GRAVITY_STRENGTH)) else Inr v)"
    by (simp add: gravity_def g)
  have alone: "\<exists>b' allObjects'.
         useFrame_callback s allObjects b = Inr (b', allObjects') \<and>
         velocity b' =
           (if MOON_RADIUS + 0.5 \<le> ?d then
              add_v (damping (velocity b)) (multiplyScalar g GRAVITY_STRENGTH)
            else if MOON_RADIUS < ?d then
              multiplyScalar (add_v (damping (velocity b)) (multiplyScalar g GRAVITY_STRENGTH)) 0.8
            else multiplyScalar (damping (velocity b)) 0.8) \<and>
         (MOON_RADIUS < ?d \<and> velocity b = Vector3 0 0 0 \<longrightarrow>
            length_v (velocity b) < length_v (velocity b') \<and>
            (\<exists>c>0. velocity b' = multiplyScalar (sub_v moonCenter p) c))"
    if far: "\<not> calculateDistance p (mousePosition s) < MOUSE_INFLUENCE_RADIUS"
      and nb: "\<forall>i<length allObjects. i \<noteq> index b \<longrightarrow>
          \<not> calculateDistance p (allObjects ! i) < OBJECT_SPACING"
  proof -
    have uv: "update_velocity s allObjects (index b) p (velocity b) =
          (if MOON_RADIUS < ?d then Inr (add_v (damping (velocity b)) (multiplyScalar g GRAVITY_STRENGTH))
           else Inr (damping (velocity b)))"
      using update_velocity_alone [OF far nb] grav by simp
    obtain b' allObjects' where
      r: "useFrame_callback s allObjects b = Inr (b', allObjects')"
      and vel: "velocity b' =
           (if MOON_RADIUS + 0.5 \<le> ?d then
              add_v (damping (velocity b)) (multiplyScalar g GRAVITY_STRENGTH)
            else if MOON_RADIUS < ?d then
              multiplyScalar (add_v (damping (velocity b)) (multiplyScalar g GRAVITY_STRENGTH)) 0.8
            else multiplyScalar (damping (velocity b)) 0.8)"
      using useFrame_callback_result [OF assms, of s] uv
      by (cases "MOON_RADIUS < ?d"; cases "?d < MOON_RADIUS + 0.5") auto
    have gain: "length_v (velocity b) < length_v (velocity b') \<and>
            (\<exists>c>0. velocity b' = multiplyScalar (sub_v moonCenter p) c)"
      if out: "MOON_RADIUS < ?d" and zero: "velocity b = Vector3 0 0 0"
    proof -
      have dpos: "0 < calculateDistance moonCenter p"
        using out calculateDistance_commute [of p moonCenter] by (simp add: MOON_RADIUS_def)
      have geq: "g = multiplyScalar (sub_v moonCenter p) (1 / calculateDistance moonCenter p)"
        using g normalize_v_sub_v [OF dpos] by simp
      define k :: real where "k = (if MOON_RADIUS + 0.5 \<le> ?d then 0.02 else 0.016)"
      have kpos: "0 < k" by (simp add: k_def)
      have vb': "velocity b' = multiplyScalar (sub_v moonCenter p) (k / calculateDistance moonCenter p)"
        using vel out zero geq
        by (simp add: k_def damping_def multiplyScalar_def add_v_def GRAVITY_STRENGTH_def)
      have len: "length_v (velocity b') = k"
        using dpos kpos by (simp add: vb' length_v_multiplyScalar length_v_sub_v)
      have "length_v (velocity b) = 0" using zero by (simp add: length_v_def)
      moreover have "0 < k / calculateDistance moonCenter p" using dpos kpos by simp
      ultimately show ?thesis using len kpos vb' by auto
    qed
    show ?thesis using r vel gain by blast
  qed
  show ?thesis using g grav alone by blast
qed

theorem attraction_one_sided_witness:
  "mesh (on_axis 10 0) = Some (Vector3 10 0 0) \<and>
   index (on_axis 10 0) < length [Vector3 10 0 0] \<and>
   \<not> calculateDistance (Vector3 10 0 0) (mousePosition far_pointer) < MOUSE_INFLUENCE_RADIUS \<and>
   MOON_RADIUS < calculateDistance (Vector3 10 0 0) moonCenter \<and>
   velocity (on_axis 10 0) = Vector3 0 0 0 \<and>
   (\<exists>b' allObjects'.
      useFrame_callback far_pointer [Vector3 10 0 0] (on_axis 10 0) = Inr (b', allObjects') \<and>
      velocity b' = Vector3 (-0.02) 0 0 \<and>
      length_v (velocity (on_axis 10 0)) < length_v (velocity b'))"
proof -
  have m: "mesh (on_axis 10 0) = Some (Vector3 10 0 0)"
    and i: "index (on_axis 10 0) < length [Vector3 10 0 0]"
    and z: "velocity (on_axis 10 0) = Vector3 0 0 0"
    by (simp_all add: on_axis_def)
  have far: "\<not> calculateDistance (Vector3 10 0 0) (mousePosition far_pointer) < MOUSE_INFLUENCE_RADIUS"
    by (simp add: vec_simps far_pointer_def calculateDistance_x_axis)
  have nb: "\<forall>i<length [Vector3 10 0 0]. i \<noteq> index (on_axis 10 0) \<longrightarrow>
          \<not> calculateDistance (Vector3 10 0 0) ([Vector3 10 0 0] ! i) < OBJECT_SPACING"
    by (simp add: on_axis_def)
  have out: "MOON_RADIUS < calculateDistance (Vector3 10 0 0) moonCenter"
    and out': "MOON_RADIUS + 0.5 \<le> calculateDistance (Vector3 10 0 0) moonCenter"
    by (simp_all add: vec_simps calculateDistance_x_axis)
  have n: "normalize_v (sub_v moonCenter (Vector3 10 0 0)) = Inr (Vector3 (-1) 0 0)"
    by (simp add: sub_v_def moonCenter_def normalize_v_x_axis)
  obtain b' allObjects' where
    r: "useFrame_callback far_pointer [Vector3 10 0 0] (on_axis 10 0) = Inr (b', allObjects')"
    and vel: "velocity b' = add_v (damping (velocity (on_axis 10 0)))
                (multiplyScalar (Vector3 (-1) 0 0) GRAVITY_STRENGTH)"
    and gain: "length_v (velocity (on_axis 10 0)) < length_v (velocity b')"
    using attraction_one_sided [OF m i, of far_pointer] n far nb out out' z by auto
  have "velocity b' = Vector3 (-0.02) 0 0"
    using vel by (simp add: z vec_simps)
  then show ?thesis using m i far out z r gain by blast
qed

section \<open>Repulsion from the pointer\<close>

text \<open>
  C5: with \<open>d\<close> the distance from the object to the pointer's scene position and \<open>v1\<close>
  the velocity after damping and attraction. When \<open>0 < d < 4\<close> the callback adds to
  \<open>v1\<close> a vector of length \<open>0.3 * (1 - d/4)\<close> that is a positive multiple of
  \<open>position - pointer\<close>, and the avoidance loop goes on from that sum; when \<open>4 \<le> d\<close> it
  adds nothing and the avoidance loop goes on from \<open>v1\<close>.
\<close>

theorem repulsion_falloff:
  "\<exists>v1. gravity (calculateDistance p moonCenter) p (damping v) = Inr v1 \<and>
     (0 < calculateDistance p (mousePosition s) \<and> calculateDistance p (mousePosition s) < 4 \<longrightarrow>
        (\<exists>r c. length_v r = 0.3 * (1 - calculateDistance p (mousePosition s) / 4) \<and>
               0 < c \<and> r = multiplyScalar (sub_v p (mousePosition s)) c \<and>
               repulsion (calculateDistance p (mousePosition s)) p (mousePosition s) v1
                 = Inr (add_v v1 r) \<and>
               update_velocity s allObjects idx p v = avoidance idx p allObjects (add_v v1 r))) \<and>
     (4 \<le> calculateDistance p (mousePosition s) \<longrightarrow>
        repulsion (calculateDistance p (mousePosition s)) p (mousePosition s) v1 = Inr v1 \<and>
        update_velocity s allObjects idx p v = avoidance idx p allObjects v1)"
proof -
  let ?M = "mousePosition s"
  let ?d = "calculateDistance p ?M"
  obtain v1 where v1: "gravity (calculateDistance p moonCenter) p (damping v) = Inr v1"
    using gravity_total by blast
  have near: "\<exists>r c. length_v r = 0.3 * (1 - ?d / 4) \<and> 0 < c \<and>
               r = multiplyScalar (sub_v p ?M) c \<and>
               repulsion ?d p ?M v1 = Inr (add_v v1 r) \<and>
               update_velocity s allObjects idx p v = avoidance idx p allObjects (add_v v1 r)"
    if pos: "0 < ?d" and lt: "?d < 4"
  proof -
    define k :: real where "k = 0.3 * (1 - ?d / 4)"
    have kpos: "0 < k" using lt by (simp add: k_def)
    define r where "r = multiplyScalar (sub_v p ?M) (k / ?d)"
    have len: "length_v r = k"
      using pos kpos by (simp add: r_def length_v_multiplyScalar length_v_sub_v)
    have rep: "repulsion ?d p ?M v1 = Inr (add_v v1 r)"
      using lt pos normalize_v_sub_v [OF pos]
      by (simp add: repulsion_def Let_def r_def k_def multiplyScalar_def
          MOUSE_INFLUENCE_RADIUS_def REPULSION_STRENGTH_def)
    have upd: "update_velocity s allObjects idx p v = avoidance idx p allObjects (add_v v1 r)"
      by (simp add: update_velocity_def Let_def v1 rep)
    have "0 < k / ?d" using pos kpos by simp
    then show ?thesis using len rep upd r_def k_def by blast
  qed
  have far: "repulsion ?d p ?M v1 = Inr v1 \<and>
        update_velocity s allObjects idx p v = avoidance idx p allObjects v1"
    if "4 \<le> ?d"
    using that by (simp add: update_velocity_def Let_def v1 repulsion_def MOUSE_INFLUENCE_RADIUS_def)
  show ?thesis using v1 near far by blast
qed

theorem repulsion_falloff_witness:
  "calculateDistance (Vector3 10 0 0) (mousePosition near_pointer) = 2 \<and>
   (\<exists>r. length_v r = 0.15 \<and>
        update_velocity near_pointer [Vector3 10 0 0] 0 (Vector3 10 0 0) (Vector3 0 0 0)
          = Inr (add_v (Vector3 (-0.02) 0 0) r)) \<and>
   4 \<le> calculateDistance (Vector3 10 0 0) (mousePosition far_pointer) \<and>
   update_velocity far_pointer [Vector3 10 0 0] 0 (Vector3 10 0 0) (Vector3 0 0 0)
     = Inr (Vector3 (-0.02) 0 0)"
proof -
  have d: "calculateDistance (Vector3 10 0 0) (mousePosition near_pointer) = 2"
    and d': "4 \<le> calculateDistance (Vector3 10 0 0) (mousePosition far_pointer)"
    by (simp_all add: mousePosition_def near_pointer_def far_pointer_def calculateDistance_x_axis)
  have g: "gravity (calculateDistance (Vector3 10 0 0) moonCenter) (Vector3 10 0 0)
             (damping (Vector3 0 0 0)) = Inr (Vector3 (-0.02) 0 0)"
    by (simp add: gravity_def vec_simps calculateDistance_x_axis normalize_v_x_axis)
  have av: "\<And>u. avoidance 0 (Vector3 10 0 0) [Vector3 10 0 0] u = Inr u"
    by (simp add: avoidance_def)
  have near: "\<exists>r. length_v r = 0.15 \<and>
        update_velocity near_pointer [Vector3 10 0 0] 0 (Vector3 10 0 0) (Vector3 0 0 0)
          = Inr (add_v (Vector3 (-0.02) 0 0) r)"
    using repulsion_falloff [of "Vector3 10 0 0" "Vector3 0 0 0" near_pointer "[Vector3 10 0 0]" 0]
    by (auto simp: g d av)
  have far: "update_velocity far_pointer [Vector3 10 0 0] 0 (Vector3 10 0 0) (Vector3 0 0 0)
     = Inr (Vector3 (-0.02) 0 0)"
    using repulsion_falloff [of "Vector3 10 0 0" "Vector3 0 0 0" far_pointer "[Vector3 10 0 0]" 0] d'
    by (auto simp: g av)
  show ?thesis using d d' near far by blast
qed

section \<open>Directions of length zero\<close>

lemma calculateDistance_self: "calculateDistance p p = 0"
  by (simp add: calculateDistance_def distanceTo_def distanceToSquared_def)

lemma normalize_v_zero: "normalize_v (Vector3 0 0 0) = Inr (Vector3 0 0 0)"
  by (simp add: normalize_v_Inr length_v_def multiplyScalar_def)

lemma sub_v_self: "sub_v p p = Vector3 0 0 0"
  by (simp add: sub_v_def)

lemma add_v_zero_term: "add_v v (multiplyScalar (Vector3 0 0 0) k) = v"
  by (simp add: add_v_def multiplyScalar_def)

lemma useFrame_callback_finite: "useFrame_callback s allObjects b \<noteq> Inl NonFinite"
proof (cases "mesh b")
  case None
  then show ?thesis by (simp add: useFrame_callback_def)
next
  case (Some p)
  show ?thesis
  proof (cases "index b < length allObjects")
    case True
    then show ?thesis using useFrame_callback_result [OF Some True, of s]
      by (auto split: if_splits)
  next
    case False
    obtain v where v: "update_velocity s allObjects (index b) p (velocity b) = Inr v"
      using update_velocity_total by blast
    show ?thesis
      using Some False v
      by (simp add: useFrame_callback_def integrate_def Let_def normalize_v_Inr)
  qed
qed

text \<open>
  C6: normalising the zero vector gives the zero vector, since \<open>normalize\<close> divides by
  \<open>length() || 1\<close>. An object exactly at the moon's centre is not pulled (its distance 0
  is not greater than the radius); for an object exactly at the pointer's position, or
  exactly where another object is, the direction is the zero vector and the term added
  to the velocity is zero. No normalisation divides by zero, so neither the velocity
  update nor the whole callback ever produces a value that is not finite.
\<close>

theorem degenerate_directions:
  "normalize_v (Vector3 0 0 0) = Inr (Vector3 0 0 0) \<and>
   normalize_v (sub_v moonCenter moonCenter) = Inr (Vector3 0 0 0) \<and>
   gravity (calculateDistance moonCenter moonCenter) moonCenter v = Inr v \<and>
   normalize_v (sub_v p p) = Inr (Vector3 0 0 0) \<and>
   repulsion (calculateDistance p p) p p v = Inr v \<and>
   forEach_avoid idx p i (p # rest) v = forEach_avoid idx p (Suc i) rest v \<and>
   normalize_v a \<noteq> Inl NonFinite \<and>
   update_velocity s allObjects idx p v \<noteq> Inl NonFinite \<and>
   useFrame_callback s allObjects b \<noteq> Inl NonFinite"
proof -
  have g: "gravity (calculateDistance moonCenter moonCenter) moonCenter v = Inr v"
    by (simp add: gravity_def calculateDistance_self MOON_RADIUS_def)
  have r: "repulsion (calculateDistance p p) p p v = Inr v"
    by (simp add: repulsion_def calculateDistance_self sub_v_self normalize_v_zero
        add_v_zero_term Let_def MOUSE_INFLUENCE_RADIUS_def)
  have a: "forEach_avoid idx p i (p # rest) v = forEach_avoid idx p (Suc i) rest v"
    by (simp add: calculateDistance_self sub_v_self normalize_v_zero add_v_zero_term
        Let_def OBJECT_SPACING_def)
  have n: "normalize_v a \<noteq> Inl NonFinite"
    by (simp add: normalize_v_Inr)
  have u: "update_velocity s allObjects idx p v \<noteq> Inl NonFinite"
    using update_velocity_total [of s allObjects idx p v] by auto
  show ?thesis
    using g r a n u useFrame_callback_finite [of s allObjects b]
    by (simp add: sub_v_self normalize_v_zero)
qed

section \<open>Damping\<close>

lemma damping_funpow: "(damping ^^ n) v = multiplyScalar v (DAMPING ^ n)"
  by (induction n) (simp_all add: damping_def multiplyScalar_def)

lemma update_velocity_no_force:
  assumes "no_force s allObjects idx p"
  shows "update_velocity s allObjects idx p v = Inr (damping v)"
proof -
  have far: "\<not> calculateDistance p (mousePosition s) < MOUSE_INFLUENCE_RADIUS"
    and nb: "\<forall>i<length allObjects. i \<noteq> idx \<longrightarrow>
               \<not> calculateDistance p (allObjects ! i) < OBJECT_SPACING"
    and inside: "\<not> calculateDistance p moonCenter > MOON_RADIUS"
    using assms by (simp_all add: no_force_def)
  show ?thesis
    using update_velocity_alone [OF far nb, of v] inside by (simp add: gravity_def)
qed

lemma length_v_damping: "length_v (damping v) = 0.95 * length_v v"
  by (simp add: damping_def length_v_multiplyScalar DAMPING_def)

lemma no_force_chain:
  assumes "\<forall>k<n. no_force (ss k) (regs k) idx (ps k) \<and>
             update_velocity (ss k) (regs k) idx (ps k) (vs k) = Inr (vs (Suc k))"
  shows "vs n = (damping ^^ n) (vs 0)"
  using assms
proof (induction n)
  case 0
  then show ?case by simp
next
  case (Suc n)
  have step: "no_force (ss n) (regs n) idx (ps n)"
    "update_velocity (ss n) (regs n) idx (ps n) (vs n) = Inr (vs (Suc n))"
    using Suc.prems by simp_all
  have prev: "\<forall>k<n. no_force (ss k) (regs k) idx (ps k) \<and>
             update_velocity (ss k) (regs k) idx (ps k) (vs k) = Inr (vs (Suc k))"
    using Suc.prems by simp
  have "vs (Suc n) = damping (vs n)"
    using update_velocity_no_force [OF step(1), of "vs n"] step(2) by simp
  also have "\<dots> = damping ((damping ^^ n) (vs 0))"
    by (rule arg_cong [where f = damping]) (rule Suc.IH [OF prev])
  also have "\<dots> = (damping ^^ Suc n) (vs 0)"
    by simp
  finally show ?case .
qed

lemma length_v_damping_funpow: "length_v ((damping ^^ n) v) = 0.95 ^ n * length_v v"
  by (simp add: damping_funpow length_v_multiplyScalar DAMPING_def)

lemma damping_funpow_tendsto: "(\<lambda>n. length_v ((damping ^^ n) v)) \<longlonglongrightarrow> 0"
proof -
  have "(\<lambda>n. (0.95::real) ^ n) \<longlonglongrightarrow> 0"
    by (rule LIMSEQ_realpow_zero) simp_all
  then have "(\<lambda>n. 0.95 ^ n * length_v v) \<longlonglongrightarrow> 0"
    by (rule tendsto_mult_left_zero)
  then show ?thesis by (simp add: length_v_damping_funpow)
qed

text \<open>
  C7: when none of the three forces acts, the velocity steps of the callback (damping,
  attraction, repulsion, avoidance) are the damping step \<open>velocity.multiplyScalar(DAMPING)\<close>
  alone and multiply the speed by 0.95. For \<open>n\<close> such velocity updates in a row, each
  starting from the velocity the one before produced, the speed is \<open>0.95 ^ n\<close> times the
  initial speed, and over an unending row of them it tends to zero; the same holds for
  the damping step iterated on its own. The surface correction is set aside, as the
  claim says: it is not one of these steps.
\<close>

theorem damping_geometric:
  "(no_force s allObjects idx p \<longrightarrow>
      update_velocity s allObjects idx p v = Inr (damping v) \<and>
      length_v (damping v) = 0.95 * length_v v) \<and>
   ((\<forall>k<n. no_force (ss k) (regs k) idx (ps k) \<and>
            update_velocity (ss k) (regs k) idx (ps k) (vs k) = Inr (vs (Suc k))) \<longrightarrow>
      vs n = (damping ^^ n) (vs 0) \<and> length_v (vs n) = 0.95 ^ n * length_v (vs 0)) \<and>
   ((\<forall>k. no_force (ss k) (regs k) idx (ps k) \<and>
          update_velocity (ss k) (regs k) idx (ps k) (vs k) = Inr (vs (Suc k))) \<longrightarrow>
      (\<lambda>n. length_v (vs n)) \<longlonglongrightarrow> 0) \<and>
   length_v ((damping ^^ n) v) = 0.95 ^ n * length_v v \<and>
   (\<lambda>n. length_v ((damping ^^ n) v)) \<longlonglongrightarrow> 0"
proof -
  have one: "update_velocity s allObjects idx p v = Inr (damping v) \<and>
      length_v (damping v) = 0.95 * length_v v"
    if "no_force s allObjects idx p"
    using update_velocity_no_force [OF that] length_v_damping by simp
  have fin: "vs n = (damping ^^ n) (vs 0) \<and> length_v (vs n) = 0.95 ^ n * length_v (vs 0)"
    if "\<forall>k<n. no_force (ss k) (regs k) idx (ps k) \<and>
            update_velocity (ss k) (regs k) idx (ps k) (vs k) = Inr (vs (Suc k))"
  proof
    show c: "vs n = (damping ^^ n) (vs 0)" by (rule no_force_chain [OF that])
    show "length_v (vs n) = 0.95 ^ n * length_v (vs 0)"
      by (subst c) (rule length_v_damping_funpow)
  qed
  have lim: "(\<lambda>n. length_v (vs n)) \<longlonglongrightarrow> 0"
    if all: "\<forall>k. no_force (ss k) (regs k) idx (ps k) \<and>
          update_velocity (ss k) (regs k) idx (ps k) (vs k) = Inr (vs (Suc k))"
  proof -
    have c: "vs m = (damping ^^ m) (vs 0)" for m
      by (rule no_force_chain [of m ss regs idx ps vs]) (use all in blast)
    have f: "(\<lambda>n. length_v (vs n)) = (\<lambda>n. length_v ((damping ^^ n) (vs 0)))"
      by (rule ext) (rule arg_cong [where f = length_v], rule c)
    show ?thesis by (subst f) (rule damping_funpow_tendsto)
  qed
  have c1: "no_force s allObjects idx p \<longrightarrow>
      update_velocity s allObjects idx p v = Inr (damping v) \<and>
      length_v (damping v) = 0.95 * length_v v"
    using one by (rule impI)
  have c2: "(\<forall>k<n. no_force (ss k) (regs k) idx (ps k) \<and>
            update_velocity (ss k) (regs k) idx (ps k) (vs k) = Inr (vs (Suc k))) \<longrightarrow>
      vs n = (damping ^^ n) (vs 0) \<and> length_v (vs n) = 0.95 ^ n * length_v (vs 0)"
    using fin by (rule impI)
  have c3: "(\<forall>k. no_force (ss k) (regs k) idx (ps k) \<and>
          update_velocity (ss k) (regs k) idx (ps k) (vs k) = Inr (vs (Suc k))) \<longrightarrow>
      (\<lambda>n. length_v (vs n)) \<longlonglongrightarrow> 0"
    using lim by (rule impI)
  show ?thesis
    by (intro conjI c1 c2 c3 length_v_damping_funpow damping_funpow_tendsto)
qed

theorem damping_geometric_witness:
  "update_velocity far_pointer [Vector3 1 0 0] 0 (Vector3 1 0 0) (Vector3 1 0 0)
     = Inr (Vector3 0.95 0 0) \<and>
   update_velocity far_pointer [Vector3 1 0 0] 0 (Vector3 1 0 0) (Vector3 0.95 0 0)
     = Inr (Vector3 0.9025 0 0) \<and>
   length_v (Vector3 0.9025 0 0) = 0.95 ^ 2 * length_v (Vector3 1 0 0) \<and>
   (\<lambda>n. length_v (Vector3 (0.95 ^ n) 0 0)) \<longlonglongrightarrow> 0"
proof -
  let ?p = "Vector3 1 0 0"
  have nf: "no_force far_pointer [?p] 0 ?p"
    by (simp add: no_force_def vec_simps far_pointer_def calculateDistance_x_axis)
  have step: "update_velocity far_pointer [?p] 0 ?p (Vector3 (0.95 ^ k) 0 0)
                = Inr (Vector3 (0.95 ^ Suc k) 0 0)" for k
    using damping_geometric [of far_pointer "[?p]" 0 ?p "Vector3 (0.95 ^ k) 0 0"] nf
    by (simp add: damping_def multiplyScalar_def DAMPING_def)
  have all: "\<forall>k. no_force far_pointer [?p] 0 ?p \<and>
        update_velocity far_pointer [?p] 0 ?p (Vector3 (0.95 ^ k) 0 0)
          = Inr (Vector3 (0.95 ^ Suc k) 0 0)"
    using nf step by simp
  have lim: "(\<lambda>n. length_v (Vector3 (0.95 ^ n) 0 0)) \<longlonglongrightarrow> 0"
    and two: "length_v (Vector3 (0.95 ^ 2) 0 0) = 0.95 ^ 2 * length_v (Vector3 (0.95 ^ 0) 0 0)"
    using damping_geometric [where ss = "\<lambda>k. far_pointer" and regs = "\<lambda>k. [?p]" and idx = 0
        and ps = "\<lambda>k. ?p" and vs = "\<lambda>k. Vector3 (0.95 ^ k) 0 0" and n = 2] all
    by simp_all
  have s0: "update_velocity far_pointer [?p] 0 ?p (Vector3 1 0 0) = Inr (Vector3 0.95 0 0)"
    using step [of 0] by simp
  have s1: "update_velocity far_pointer [?p] 0 ?p (Vector3 0.95 0 0) = Inr (Vector3 0.9025 0 0)"
    using step [of 1] by (simp add: power2_eq_square)
  show ?thesis using s0 s1 two lim by (simp add: power2_eq_square)
qed

section \<open>Facts about the initial layout\<close>

lemma objectsInLayer_eq: "objectsInLayer = 16"
  by (simp add: objectsInLayer_def totalObjects_def)

lemma layer_loop_unfold:
  "layer_loop random layer i (positions, k) =
     (if i < 16 then
        layer_loop random layer (Suc i)
          (positions @ [Vector3 (cos ((real i / 16) * pi * 2) * (5 + random k * 2))
                          ((random (Suc k) - 0.5) * 4 + real layer * 1.5)
                          (sin ((real i / 16) * pi * 2) * (5 + random k * 2))], k + 2)
      else (positions, k))"
  by (subst layer_loop.simps) (simp add: objectsInLayer_eq Let_def)

lemma layer_loop_closed:
  "i \<le> 16 \<Longrightarrow>
   layer_loop random layer i (positions, k0 + 2 * i) =
     (positions @
        map (\<lambda>j. Vector3 (cos ((real j / 16) * pi * 2) * (5 + random (k0 + 2 * j) * 2))
                    ((random (Suc (k0 + 2 * j)) - 0.5) * 4 + real layer * 1.5)
                    (sin ((real j / 16) * pi * 2) * (5 + random (k0 + 2 * j) * 2)))
          [i..<16],
      k0 + 32)"
proof (induction "16 - i" arbitrary: i positions)
  case 0
  then have "i = 16" by simp
  then show ?case by (subst layer_loop_unfold) simp
next
  case (Suc m)
  then have lt: "i < 16" and m: "m = 16 - Suc i" and le: "Suc i \<le> 16" by simp_all
  have k: "k0 + 2 * i + 2 = k0 + 2 * Suc i" by simp
  show ?case
    apply (subst layer_loop_unfold)
    apply (simp only: lt if_True k Suc.hyps(1) [OF m le])
    apply (simp add: upt_conv_Cons [OF lt])
    done
qed

lemma layers_loop_unfold:
  "layers_loop random 0 st =
     layer_loop random 2 0 (layer_loop random 1 0 (layer_loop random 0 0 st))"
proof -
  have "layers_loop random 3 st' = st'" for st'
    by (subst layers_loop.simps) simp
  moreover have "layers_loop random 2 st' = layers_loop random 3 (layer_loop random 2 0 st')" for st'
    by (subst layers_loop.simps) (simp add: numeral_3_eq_3)
  moreover have "layers_loop random 1 st' = layers_loop random 2 (layer_loop random 1 0 st')" for st'
    by (subst layers_loop.simps) (simp add: numeral_2_eq_2)
  moreover have "layers_loop random 0 st' = layers_loop random 1 (layer_loop random 0 0 st')" for st'
    by (subst layers_loop.simps) simp
  ultimately show ?thesis by simp
qed

lemma objectPositions_closed:
  "objectPositions random =
     concat (map (\<lambda>layer.
        map (\<lambda>j. Vector3 (cos ((real j / 16) * pi * 2) * (5 + random (32 * layer + 2 * j) * 2))
                    ((random (Suc (32 * layer + 2 * j)) - 0.5) * 4 + real layer * 1.5)
                    (sin ((real j / 16) * pi * 2) * (5 + random (32 * layer + 2 * j) * 2)))
          [0..<16]) [0, 1, 2])"
  using layer_loop_closed [of 0 random 0 "[]" 0]
  apply (simp only: objectPositions_def layers_loop_unfold)
  using layer_loop_closed [of 0 random 1 _ 32] layer_loop_closed [of 0 random 2 _ 64]
  apply simp
  done


lemma length_objectPositions: "length (objectPositions random) = 48"
  by (simp add: objectPositions_closed)

lemma objectPositions_nth:
  assumes "n < 48"
  shows "objectPositions random ! n =
           Vector3 (cos ((real (n mod 16) / 16) * pi * 2) * (5 + random (2 * n) * 2))
                   ((random (Suc (2 * n)) - 0.5) * 4 + real (n div 16) * 1.5)
                   (sin ((real (n mod 16) / 16) * pi * 2) * (5 + random (2 * n) * 2))"
proof -
  consider "n < 16" | "16 \<le> n" "n < 32" | "32 \<le> n" "n < 48"
    using assms by linarith
  then show ?thesis
  proof cases
    case 1
    then show ?thesis by (simp add: objectPositions_closed nth_append)
  next
    case 2
    then have d: "n div 16 = 1" and m: "n mod 16 = n - 16"
      by (simp_all add: div_nat_eqI mod_if)
    have k: "32 + 2 * (n - 16) = 2 * n" "33 + 2 * (n - 16) = Suc (2 * n)" "n - 16 < 16"
      using 2 by simp_all
    show ?thesis using 2 by (simp add: objectPositions_closed nth_append d m k)
  next
    case 3
    then have d: "n div 16 = 2" and m: "n mod 16 = n - 32"
      by (simp_all add: div_nat_eqI mod_if)
    have k: "64 + 2 * (n - 32) = 2 * n" "65 + 2 * (n - 32) = Suc (2 * n)" "n - 32 < 16"
      "\<not> n - 16 < 16" "n - 16 - 16 = n - 32"
      using 3 by simp_all
    show ?thesis using 3 by (simp add: objectPositions_closed nth_append d m k)
  qed
qed

lemma ring_radius:
  "0 \<le> r \<Longrightarrow> sqrt (cos a * r * (cos a * r) + sin a * r * (sin a * r)) = r"
proof -
  assume r: "0 \<le> r"
  have "cos a * r * (cos a * r) + sin a * r * (sin a * r) = r * r * (cos a * cos a + sin a * sin a)"
    by algebra
  then have "cos a * r * (cos a * r) + sin a * r * (sin a * r) = r * r"
    unfolding sin_cos_squared_add3 by simp
  then show ?thesis using r by simp
qed

text \<open>
  C8: for 48 objects in 3 layers the initialiser returns exactly 48 positions whatever
  the random draws are, so the length does not depend on them. When every draw lies in
  \<open>[0, 1)\<close>, as \<open>Math.random()\<close> promises, the \<open>n\<close>-th position lies at horizontal
  distance \<open>5 + 2 * random (2 * n)\<close> from the vertical axis, which is 5 plus less than 2,
  and its height is within 2 of \<open>1.5\<close> times its layer \<open>n div 16\<close>. Positions are
  triples of reals, so every coordinate is a finite number.
\<close>

theorem initial_layout:
  "length (objectPositions random) = 48 \<and>
   length (objectPositions random') = length (objectPositions random) \<and>
   ((\<forall>k. 0 \<le> random k \<and> random k < 1) \<longrightarrow>
    (\<forall>n<48.
       sqrt (vx (objectPositions random ! n) * vx (objectPositions random ! n) +
             vz (objectPositions random ! n) * vz (objectPositions random ! n))
         = 5 + random (2 * n) * 2 \<and>
       random (2 * n) * 2 < 2 \<and>
       \<bar>vy (objectPositions random ! n) - real (n div 16) * 1.5\<bar> \<le> 2))"
proof -
  have "sqrt (vx (objectPositions random ! n) * vx (objectPositions random ! n) +
             vz (objectPositions random ! n) * vz (objectPositions random ! n))
         = 5 + random (2 * n) * 2 \<and>
       random (2 * n) * 2 < 2 \<and>
       \<bar>vy (objectPositions random ! n) - real (n div 16) * 1.5\<bar> \<le> 2"
    if rnd: "\<forall>k. 0 \<le> random k \<and> random k < 1" and n: "n < 48" for n
  proof -
    have r0: "0 \<le> random (2 * n)" and r1: "random (2 * n) < 1"
      and y0: "0 \<le> random (Suc (2 * n))" and y1: "random (Suc (2 * n)) < 1"
      using rnd by simp_all
    have "0 \<le> 5 + random (2 * n) * 2" using r0 by simp
    then show ?thesis
      using r1 y0 y1 by (simp add: objectPositions_nth [OF n] ring_radius abs_le_iff)
  qed
  then show ?thesis by (simp add: length_objectPositions)
qed

theorem initial_layout_witness:
  "(\<forall>k. 0 \<le> (\<lambda>k. 1 / 2 :: real) k \<and> (\<lambda>k. 1 / 2 :: real) k < 1) \<and>
   length (objectPositions (\<lambda>k. 1 / 2)) = 48 \<and>
   sqrt (vx (objectPositions (\<lambda>k. 1 / 2) ! 20) * vx (objectPositions (\<lambda>k. 1 / 2) ! 20) +
         vz (objectPositions (\<lambda>k. 1 / 2) ! 20) * vz (objectPositions (\<lambda>k. 1 / 2) ! 20)) = 6 \<and>
   \<bar>vy (objectPositions (\<lambda>k. 1 / 2) ! 20) - 1.5\<bar> \<le> 2"
proof -
  have h: "\<forall>k. 0 \<le> (\<lambda>k. 1 / 2 :: real) k \<and> (\<lambda>k. 1 / 2 :: real) k < 1" by simp
  have d: "real ((20::nat) div 16) * 1.5 = 1.5" by simp
  have all: "\<forall>n<48.
       sqrt (vx (objectPositions (\<lambda>k. 1 / 2) ! n) * vx (objectPositions (\<lambda>k. 1 / 2) ! n) +
             vz (objectPositions (\<lambda>k. 1 / 2) ! n) * vz (objectPositions (\<lambda>k. 1 / 2) ! n))
         = 5 + (1 / 2) * 2 \<and>
       \<bar>vy (objectPositions (\<lambda>k. 1 / 2) ! n) - real (n div 16) * 1.5\<bar> \<le> 2"
    and len: "length (objectPositions (\<lambda>k. 1 / 2)) = 48"
    using initial_layout [of "\<lambda>k. 1 / 2" "\<lambda>k. 1 / 2"] h by simp_all
  have "sqrt (vx (objectPositions (\<lambda>k. 1 / 2) ! 20) * vx (objectPositions (\<lambda>k. 1 / 2) ! 20) +
             vz (objectPositions (\<lambda>k. 1 / 2) ! 20) * vz (objectPositions (\<lambda>k. 1 / 2) ! 20))
         = 5 + (1 / 2) * 2 \<and>
       \<bar>vy (objectPositions (\<lambda>k. 1 / 2) ! 20) - real ((20::nat) div 16) * 1.5\<bar> \<le> 2"
    using all by (drule_tac x = 20 in spec) simp
  then show ?thesis using len h d by simp
qed

section \<open>One frame of three objects on the axes\<close>

lemma calculateDistance_moonCenter: "calculateDistance p moonCenter = length_v p"
  by (simp add: calculateDistance_def distanceTo_def distanceToSquared_def Let_def
      moonCenter_def length_v_def)

lemma not_within_spacing:
  assumes "0.36 \<le> distanceToSquared a b"
  shows "\<not> calculateDistance a b < OBJECT_SPACING"
proof -
  have "0.6 \<le> sqrt (distanceToSquared a b)"
    by (rule real_le_rsqrt) (use assms in \<open>simp add: power2_eq_square\<close>)
  then show ?thesis
    by (simp add: calculateDistance_def distanceTo_def OBJECT_SPACING_def)
qed

lemma useFrame_callback_attraction_only:
  assumes m: "mesh b = Some p" and i: "index b < length allObjects"
    and d: "MOON_RADIUS + 0.5 \<le> calculateDistance p moonCenter"
    and far: "\<not> calculateDistance p (mousePosition s) < MOUSE_INFLUENCE_RADIUS"
    and nb: "\<forall>i<length allObjects. i \<noteq> index b \<longrightarrow>
               \<not> calculateDistance p (allObjects ! i) < OBJECT_SPACING"
    and g: "normalize_v (sub_v moonCenter p) = Inr g"
    and v: "v = add_v (damping (velocity b)) (multiplyScalar g GRAVITY_STRENGTH)"
  shows "useFrame_callback s allObjects b =
           Inr (b\<lparr>mesh := Some (add_v p v), velocity := v\<rparr>, allObjects[index b := add_v p v])"
proof -
  have "update_velocity s allObjects (index b) p (velocity b) = Inr v"
    using update_velocity_alone [OF far nb] d g v by (simp add: gravity_def MOON_RADIUS_def)
  then show ?thesis
    using useFrame_callback_result [OF m i, of s] d by auto
qed

text \<open>
  C2: three objects mounted at \<open>(10,0,0)\<close>, \<open>(0,10,0)\<close> and \<open>(0,0,10)\<close> with zero velocity,
  the moon of radius 3 at the origin, and the pointer's scene position further than 4
  from each of them. One pass over the three callbacks leaves each object, and its entry
  of \<open>allObjects\<close>, at its old position plus \<open>normalize(-oldPosition) * 0.02\<close>: the
  direction is the unit vector towards the origin, and neither the pointer, nor another
  object, nor the surface correction changes the result.
\<close>

theorem end_to_end:
  assumes "4 < calculateDistance (Vector3 10 0 0) (mousePosition s)"
    and "4 < calculateDistance (Vector3 0 10 0) (mousePosition s)"
    and "4 < calculateDistance (Vector3 0 0 10) (mousePosition s)"
  shows "normalize_v (sub_v moonCenter (Vector3 10 0 0)) = Inr (Vector3 (-1) 0 0) \<and>
         normalize_v (sub_v moonCenter (Vector3 0 10 0)) = Inr (Vector3 0 (-1) 0) \<and>
         normalize_v (sub_v moonCenter (Vector3 0 0 10)) = Inr (Vector3 0 0 (-1)) \<and>
         frame s [Vector3 10 0 0, Vector3 0 10 0, Vector3 0 0 10]
           (mount_all [Vector3 10 0 0, Vector3 0 10 0, Vector3 0 0 10]) =
         Inr ([\<lparr>index = 0,
                 mesh = Some (add_v (Vector3 10 0 0) (multiplyScalar (Vector3 (-1) 0 0) 0.02)),
                 velocity = multiplyScalar (Vector3 (-1) 0 0) 0.02, isHovered = False\<rparr>,
               \<lparr>index = 1,
                 mesh = Some (add_v (Vector3 0 10 0) (multiplyScalar (Vector3 0 (-1) 0) 0.02)),
                 velocity = multiplyScalar (Vector3 0 (-1) 0) 0.02, isHovered = False\<rparr>,
               \<lparr>index = 2,
                 mesh = Some (add_v (Vector3 0 0 10) (multiplyScalar (Vector3 0 0 (-1)) 0.02)),
                 velocity = multiplyScalar (Vector3 0 0 (-1)) 0.02, isHovered = False\<rparr>],
              [add_v (Vector3 10 0 0) (multiplyScalar (Vector3 (-1) 0 0) 0.02),
               add_v (Vector3 0 10 0) (multiplyScalar (Vector3 0 (-1) 0) 0.02),
               add_v (Vector3 0 0 10) (multiplyScalar (Vector3 0 0 (-1)) 0.02)])"
proof -
  let ?P0 = "Vector3 10 0 0" and ?P1 = "Vector3 0 10 0" and ?P2 = "Vector3 0 0 10"
  let ?Q0 = "Vector3 9.98 0 0" and ?Q1 = "Vector3 0 9.98 0" and ?Q2 = "Vector3 0 0 9.98"
  have len: "length_v ?P0 = 10" "length_v ?P1 = 10" "length_v ?P2 = 10"
    by (simp_all add: length_v_def)
  have lenm: "length_v (Vector3 (-10) 0 0) = 10" "length_v (Vector3 0 (-10) 0) = 10"
    "length_v (Vector3 0 0 (-10)) = 10"
    by (simp_all add: length_v_def)
  have g: "normalize_v (sub_v moonCenter ?P0) = Inr (Vector3 (-1) 0 0)"
    "normalize_v (sub_v moonCenter ?P1) = Inr (Vector3 0 (-1) 0)"
    "normalize_v (sub_v moonCenter ?P2) = Inr (Vector3 0 0 (-1))"
    by (simp_all add: normalize_v_Inr sub_v_def moonCenter_def lenm multiplyScalar_def)
  have d: "MOON_RADIUS + 0.5 \<le> calculateDistance ?P0 moonCenter"
    "MOON_RADIUS + 0.5 \<le> calculateDistance ?P1 moonCenter"
    "MOON_RADIUS + 0.5 \<le> calculateDistance ?P2 moonCenter"
    by (simp_all add: calculateDistance_moonCenter len MOON_RADIUS_def)
  have far: "\<not> calculateDistance ?P0 (mousePosition s) < MOUSE_INFLUENCE_RADIUS"
    "\<not> calculateDistance ?P1 (mousePosition s) < MOUSE_INFLUENCE_RADIUS"
    "\<not> calculateDistance ?P2 (mousePosition s) < MOUSE_INFLUENCE_RADIUS"
    using assms by (simp_all add: MOUSE_INFLUENCE_RADIUS_def)
  have sp: "\<not> calculateDistance ?P0 ?P1 < OBJECT_SPACING"
    "\<not> calculateDistance ?P0 ?P2 < OBJECT_SPACING"
    "\<not> calculateDistance ?P1 ?Q0 < OBJECT_SPACING"
    "\<not> calculateDistance ?P1 ?P2 < OBJECT_SPACING"
    "\<not> calculateDistance ?P2 ?Q0 < OBJECT_SPACING"
    "\<not> calculateDistance ?P2 ?Q1 < OBJECT_SPACING"
    by (rule not_within_spacing, simp add: distanceToSquared_def)+
  have step0: "useFrame_callback s [?P0, ?P1, ?P2] (mount 0 ?P0) =
      Inr (\<lparr>index = 0, mesh = Some ?Q0, velocity = Vector3 (-0.02) 0 0, isHovered = False\<rparr>,
           [?Q0, ?P1, ?P2])"
    using useFrame_callback_attraction_only [of "mount 0 ?P0" ?P0 "[?P0, ?P1, ?P2]" s
        "Vector3 (-1) 0 0" "Vector3 (-0.02) 0 0"] d(1) far(1) g(1) sp
    by (simp add: mount_def vec_simps All_less_Suc numeral_3_eq_3)
  have step1: "useFrame_callback s [?Q0, ?P1, ?P2] (mount 1 ?P1) =
      Inr (\<lparr>index = 1, mesh = Some ?Q1, velocity = Vector3 0 (-0.02) 0, isHovered = False\<rparr>,
           [?Q0, ?Q1, ?P2])"
    using useFrame_callback_attraction_only [of "mount 1 ?P1" ?P1 "[?Q0, ?P1, ?P2]" s
        "Vector3 0 (-1) 0" "Vector3 0 (-0.02) 0"] d(2) far(2) g(2) sp
    by (simp add: mount_def vec_simps All_less_Suc numeral_3_eq_3)
  have step2: "useFrame_callback s [?Q0, ?Q1, ?P2] (mount 2 ?P2) =
      Inr (\<lparr>index = 2, mesh = Some ?Q2, velocity = Vector3 0 0 (-0.02), isHovered = False\<rparr>,
           [?Q0, ?Q1, ?Q2])"
    using useFrame_callback_attraction_only [of "mount 2 ?P2" ?P2 "[?Q0, ?Q1, ?P2]" s
        "Vector3 0 0 (-1)" "Vector3 0 0 (-0.02)"] d(3) far(3) g(3) sp
    by (simp add: mount_def vec_simps All_less_Suc numeral_3_eq_3 numeral_2_eq_2)
  have fr: "frame s [?P0, ?P1, ?P2] (mount_all [?P0, ?P1, ?P2]) =
      Inr ([\<lparr>index = 0, mesh = Some ?Q0, velocity = Vector3 (-0.02) 0 0, isHovered = False\<rparr>,
            \<lparr>index = 1, mesh = Some ?Q1, velocity = Vector3 0 (-0.02) 0, isHovered = False\<rparr>,
            \<lparr>index = 2, mesh = Some ?Q2, velocity = Vector3 0 0 (-0.02), isHovered = False\<rparr>],
           [?Q0, ?Q1, ?Q2])"
    using step0 step1 step2 by (simp add: mount_all_def numeral_2_eq_2)
  show ?thesis
    using g fr by (simp add: add_v_def multiplyScalar_def)
qed


theorem end_to_end_witness:
  "4 < calculateDistance (Vector3 10 0 0) (mousePosition far_pointer) \<and>
   4 < calculateDistance (Vector3 0 10 0) (mousePosition far_pointer) \<and>
   4 < calculateDistance (Vector3 0 0 10) (mousePosition far_pointer) \<and>
   frame far_pointer [Vector3 10 0 0, Vector3 0 10 0, Vector3 0 0 10]
     (mount_all [Vector3 10 0 0, Vector3 0 10 0, Vector3 0 0 10]) =
   Inr ([\<lparr>index = 0, mesh = Some (Vector3 9.98 0 0), velocity = Vector3 (-0.02) 0 0,
           isHovered = False\<rparr>,
         \<lparr>index = 1, mesh = Some (Vector3 0 9.98 0), velocity = Vector3 0 (-0.02) 0,
           isHovered = False\<rparr>,
         \<lparr>index = 2, mesh = Some (Vector3 0 0 9.98), velocity = Vector3 0 0 (-0.02),
           isHovered = False\<rparr>],
        [Vector3 9.98 0 0, Vector3 0 9.98 0, Vector3 0 0 9.98])"
proof -
  have far: "4 < calculateDistance (Vector3 10 0 0) (mousePosition far_pointer)"
    "4 < calculateDistance (Vector3 0 10 0) (mousePosition far_pointer)"
    "4 < calculateDistance (Vector3 0 0 10) (mousePosition far_pointer)"
    unfolding calculateDistance_def distanceTo_def
    by (rule real_less_rsqrt,
        simp add: distanceToSquared_def mousePosition_def far_pointer_def power2_eq_square)+
  show ?thesis
    using end_to_end [OF far] far by (simp add: add_v_def multiplyScalar_def)
qed

section \<open>The order of the callbacks within a frame\<close>

lemma useFrame_callback_commit:
  assumes "mesh b = Some p" and "index b < length allObjects"
  shows "\<exists>b' p'. useFrame_callback s allObjects b = Inr (b', allObjects[index b := p']) \<and>
                 mesh b' = Some p' \<and> index b' = index b"
  using useFrame_callback_result [OF assms, of s]
  by (cases "calculateDistance p moonCenter < MOON_RADIUS + 0.5") auto

lemma update_velocity_before_avoidance:
  "\<exists>u. \<forall>allObjects idx. update_velocity s allObjects idx p v = avoidance idx p allObjects u"
proof -
  obtain v1 where v1: "gravity (calculateDistance p moonCenter) p (damping v) = Inr v1"
    using gravity_total by blast
  obtain v2 where v2: "repulsion (calculateDistance p (mousePosition s)) p (mousePosition s) v1 = Inr v2"
    using repulsion_total by blast
  have "\<forall>allObjects idx. update_velocity s allObjects idx p v = avoidance idx p allObjects v2"
    by (simp add: update_velocity_def Let_def v1 v2)
  then show ?thesis by blast
qed

text \<open>
  C3: in one pass the callbacks run in ascending index order, each on \<open>allObjects\<close> as
  the calls before it left it. Let objects 0 and 1 start the frame at \<open>p0\<close> and \<open>p1\<close>,
  less than the spacing 0.6 apart. The callback of object 0 runs on the array that still
  holds \<open>p1\<close>, the position object 1 had in the previous frame, and its avoidance loop
  adds \<open>normalize(p0 - p1) * 0.02\<close> to the velocity \<open>u0\<close> it has after damping, attraction
  and repulsion. The callback of object 1 then runs on the array whose entry 0 is already
  \<open>p0'\<close>, the position object 0 has just committed: its loop tests the distance from
  \<open>p1\<close> to \<open>p0'\<close> and, when that is below the spacing, adds \<open>normalize(p1 - p0') * 0.02\<close>.
  In the example object 0 moves from 10 to 9.96, away from object 1 at 10.59, so object 1
  is no longer within the spacing and is not pushed; on the array of the start of the
  frame it would have been.
\<close>

theorem update_order_asymmetry:
  assumes "index b0 = 0" and "mesh b0 = Some p0" and "index b1 = 1" and "mesh b1 = Some p1"
    and "calculateDistance p0 p1 < OBJECT_SPACING"
  shows "\<exists>b0' p0' b1' p1' u0 d0 u1 d1.
     useFrame_callback s (p0 # p1 # ps) b0 = Inr (b0', p0' # p1 # ps) \<and> mesh b0' = Some p0' \<and>
     useFrame_callback s (p0' # p1 # ps) b1 = Inr (b1', p0' # p1' # ps) \<and> mesh b1' = Some p1' \<and>
     frame s (p0 # p1 # ps) (b0 # b1 # bs) =
       (case frame s (p0' # p1' # ps) bs of
          Inl e \<Rightarrow> Inl e
        | Inr (bs', allObjects') \<Rightarrow> Inr (b0' # b1' # bs', allObjects')) \<and>
     (\<forall>allObjects. update_velocity s allObjects 0 p0 (velocity b0) = avoidance 0 p0 allObjects u0) \<and>
     normalize_v (sub_v p0 p1) = Inr d0 \<and>
     update_velocity s (p0 # p1 # ps) 0 p0 (velocity b0) =
       forEach_avoid 0 p0 2 ps (add_v u0 (multiplyScalar d0 0.02)) \<and>
     (\<forall>allObjects. update_velocity s allObjects 1 p1 (velocity b1) = avoidance 1 p1 allObjects u1) \<and>
     normalize_v (sub_v p1 p0') = Inr d1 \<and>
     update_velocity s (p0' # p1 # ps) 1 p1 (velocity b1) =
       (if calculateDistance p1 p0' < OBJECT_SPACING
        then forEach_avoid 1 p1 2 ps (add_v u1 (multiplyScalar d1 0.02))
        else forEach_avoid 1 p1 2 ps u1)"
proof -
  obtain b0' p0' where
    c0: "useFrame_callback s (p0 # p1 # ps) b0 = Inr (b0', (p0 # p1 # ps)[index b0 := p0'])"
    and m0: "mesh b0' = Some p0'"
    using useFrame_callback_commit [of b0 p0 "p0 # p1 # ps" s] assms(1,2) by auto
  obtain b1' p1' where
    c1: "useFrame_callback s (p0' # p1 # ps) b1 = Inr (b1', (p0' # p1 # ps)[index b1 := p1'])"
    and m1: "mesh b1' = Some p1'"
    using useFrame_callback_commit [of b1 p1 "p0' # p1 # ps" s] assms(3,4) by auto
  obtain u0 where u0:
    "\<forall>allObjects idx. update_velocity s allObjects idx p0 (velocity b0) = avoidance idx p0 allObjects u0"
    using update_velocity_before_avoidance by blast
  obtain u1 where u1:
    "\<forall>allObjects idx. update_velocity s allObjects idx p1 (velocity b1) = avoidance idx p1 allObjects u1"
    using update_velocity_before_avoidance by blast
  obtain d0 where d0: "normalize_v (sub_v p0 p1) = Inr d0"
    by (simp add: normalize_v_Inr)
  obtain d1 where d1: "normalize_v (sub_v p1 p0') = Inr d1"
    by (simp add: normalize_v_Inr)
  have c0': "useFrame_callback s (p0 # p1 # ps) b0 = Inr (b0', p0' # p1 # ps)"
    using c0 assms(1) by simp
  have c1': "useFrame_callback s (p0' # p1 # ps) b1 = Inr (b1', p0' # p1' # ps)"
    using c1 assms(3) by simp
  have fr: "frame s (p0 # p1 # ps) (b0 # b1 # bs) =
       (case frame s (p0' # p1' # ps) bs of
          Inl e \<Rightarrow> Inl e
        | Inr (bs', allObjects') \<Rightarrow> Inr (b0' # b1' # bs', allObjects'))"
    by (simp add: c0' c1' split: sum.splits)
  have a0: "update_velocity s (p0 # p1 # ps) 0 p0 (velocity b0) =
            forEach_avoid 0 p0 2 ps (add_v u0 (multiplyScalar d0 0.02))"
    using assms(5) u0 by (simp add: avoidance_def d0 numeral_2_eq_2)
  have a1: "update_velocity s (p0' # p1 # ps) 1 p1 (velocity b1) =
            (if calculateDistance p1 p0' < OBJECT_SPACING
             then forEach_avoid 1 p1 2 ps (add_v u1 (multiplyScalar d1 0.02))
             else forEach_avoid 1 p1 2 ps u1)"
    using u1 by (simp add: avoidance_def d1 numeral_2_eq_2)
  show ?thesis
    using c0' m0 c1' m1 fr d0 a0 d1 a1 u0 u1 by blast
qed

theorem update_order_asymmetry_witness:
  "calculateDistance (Vector3 10 0 0) (Vector3 10.59 0 0) < OBJECT_SPACING \<and>
   frame far_pointer [Vector3 10 0 0, Vector3 10.59 0 0]
     (mount_all [Vector3 10 0 0, Vector3 10.59 0 0]) =
   Inr ([\<lparr>index = 0, mesh = Some (Vector3 9.96 0 0), velocity = Vector3 (-0.04) 0 0,
           isHovered = False\<rparr>,
         \<lparr>index = 1, mesh = Some (Vector3 10.57 0 0), velocity = Vector3 (-0.02) 0 0,
           isHovered = False\<rparr>],
        [Vector3 9.96 0 0, Vector3 10.57 0 0]) \<and>
   update_velocity far_pointer [Vector3 10 0 0, Vector3 10.59 0 0] 0 (Vector3 10 0 0) (Vector3 0 0 0)
     = Inr (Vector3 (-0.04) 0 0) \<and>
   update_velocity far_pointer [Vector3 9.96 0 0, Vector3 10.59 0 0] 1 (Vector3 10.59 0 0) (Vector3 0 0 0)
     = Inr (Vector3 (-0.02) 0 0) \<and>
   update_velocity far_pointer [Vector3 10 0 0, Vector3 10.59 0 0] 1 (Vector3 10.59 0 0) (Vector3 0 0 0)
     = Inr (Vector3 0 0 0)"
proof -
  let ?P0 = "Vector3 10 0 0" and ?P1 = "Vector3 10.59 0 0"
  have close: "calculateDistance ?P0 ?P1 < OBJECT_SPACING"
    by (simp add: calculateDistance_x_axis OBJECT_SPACING_def)
  have uv: "update_velocity far_pointer [?P0, ?P1] 0 ?P0 (Vector3 0 0 0) = Inr (Vector3 (-0.04) 0 0)"
    "update_velocity far_pointer [Vector3 9.96 0 0, ?P1] 1 ?P1 (Vector3 0 0 0) = Inr (Vector3 (-0.02) 0 0)"
    "update_velocity far_pointer [?P0, ?P1] 1 ?P1 (Vector3 0 0 0) = Inr (Vector3 0 0 0)"
    by (simp_all add: update_velocity_def gravity_def repulsion_def avoidance_def Let_def vec_simps
        far_pointer_def calculateDistance_x_axis normalize_v_x_axis)
  have c0: "useFrame_callback far_pointer [?P0, ?P1] (mount 0 ?P0) =
      Inr (\<lparr>index = 0, mesh = Some (Vector3 9.96 0 0), velocity = Vector3 (-0.04) 0 0,
             isHovered = False\<rparr>, [Vector3 9.96 0 0, ?P1])"
    using uv(1)
    by (simp add: useFrame_callback_def integrate_def Let_def vec_simps mount_def
        calculateDistance_x_axis)
  have c1: "useFrame_callback far_pointer [Vector3 9.96 0 0, ?P1] (mount 1 ?P1) =
      Inr (\<lparr>index = 1, mesh = Some (Vector3 10.57 0 0), velocity = Vector3 (-0.02) 0 0,
             isHovered = False\<rparr>, [Vector3 9.96 0 0, Vector3 10.57 0 0])"
    using uv(2)
    by (simp add: useFrame_callback_def integrate_def Let_def vec_simps mount_def
        calculateDistance_x_axis)
  have fr: "frame far_pointer [?P0, ?P1] (mount_all [?P0, ?P1]) =
   Inr ([\<lparr>index = 0, mesh = Some (Vector3 9.96 0 0), velocity = Vector3 (-0.04) 0 0,
           isHovered = False\<rparr>,
         \<lparr>index = 1, mesh = Some (Vector3 10.57 0 0), velocity = Vector3 (-0.02) 0 0,
           isHovered = False\<rparr>],
        [Vector3 9.96 0 0, Vector3 10.57 0 0])"
    using update_order_asymmetry [of "mount 0 ?P0" ?P0 "mount 1 ?P1" ?P1 far_pointer "[]" "[]"]
      close c0 c1
    by (auto simp: mount_def mount_all_def)
  show ?thesis using close fr uv by simp
qed

section \<open>The hover flag does not reach the motion\<close>

lemma useFrame_callback_setIsHovered:
  "useFrame_callback s allObjects (setIsHovered h b) =
     map_sum id (\<lambda>(b', allObjects'). (setIsHovered h b', allObjects'))
       (useFrame_callback s allObjects b)"
  by (simp add: useFrame_callback_def setIsHovered_def split: option.splits sum.splits prod.splits)

lemma same_motion:
  assumes "index b1 = index b2" and "mesh b1 = mesh b2" and "velocity b1 = velocity b2"
  shows "setIsHovered h b1 = setIsHovered h b2"
  using assms by (simp add: setIsHovered_def)

lemma setIsHovered_fields:
  "index (setIsHovered h b) = index b" "mesh (setIsHovered h b) = mesh b"
  "velocity (setIsHovered h b) = velocity b" "isHovered (setIsHovered h b) = h"
  by (simp_all add: setIsHovered_def)

lemma setIsHovered_twice: "setIsHovered h (setIsHovered h' b) = setIsHovered h b"
  by (simp add: setIsHovered_def)

lemma run_callback_setIsHovered:
  "run_callback fs (setIsHovered h b) = run_callback fs b"
proof (cases fs)
  case Nil
  then show ?thesis by simp
next
  case (Cons f rest)
  obtain s allObjects h' where f: "f = (s, allObjects, h')" by (cases f)
  show ?thesis by (simp add: Cons f setIsHovered_twice)
qed

lemma run_callback_hover:
  "map (\<lambda>(s, allObjects, h). (s, allObjects)) fs1 = map (\<lambda>(s, allObjects, h). (s, allObjects)) fs2 \<Longrightarrow>
   run_callback fs1 b = run_callback fs2 b"
proof (induction fs1 arbitrary: fs2 b)
  case Nil
  then show ?case by simp
next
  case (Cons f1 rest1)
  then obtain f2 rest2 where fs2: "fs2 = f2 # rest2" by (cases fs2) auto
  obtain s allObjects h1 where f1: "f1 = (s, allObjects, h1)" by (cases f1)
  obtain h2 where f2: "f2 = (s, allObjects, h2)"
    using Cons.prems fs2 f1 by (cases f2) auto
  have rest: "map (\<lambda>(s, allObjects, h). (s, allObjects)) rest1 =
              map (\<lambda>(s, allObjects, h). (s, allObjects)) rest2"
    using Cons.prems fs2 by simp
  show ?case
  proof (cases "useFrame_callback s allObjects b")
    case (Inl e)
    then show ?thesis by (simp add: fs2 f1 f2 useFrame_callback_setIsHovered)
  next
    case (Inr r)
    obtain b' allObjects' where r: "r = (b', allObjects')" by (cases r)
    have "run_callback rest1 (setIsHovered h1 b') = run_callback rest2 (setIsHovered h2 b')"
      using Cons.IH [OF rest, of b'] by (simp add: run_callback_setIsHovered)
    then show ?thesis
      by (simp add: fs2 f1 f2 useFrame_callback_setIsHovered Inr r setIsHovered_fields)
  qed
qed

text \<open>
  C9: take two objects that agree on index, position and velocity, and two runs of frames
  that agree, frame by frame, on the pointer and viewport and on the array \<open>allObjects\<close>
  the object finds, but set the hover flag in any two ways. Then both runs yield the same
  positions, velocities and arrays in every frame, and stop at the same frame if a call
  throws. The same holds for a single call of the callback. The flag only selects the
  target of the scale spring, 1.1 or 1.
\<close>

theorem hover_has_no_effect_on_motion:
  assumes "index b1 = index b2" and "mesh b1 = mesh b2" and "velocity b1 = velocity b2"
    and "map (\<lambda>(s, allObjects, h). (s, allObjects)) fs1 =
         map (\<lambda>(s, allObjects, h). (s, allObjects)) fs2"
  shows "run_callback fs1 b1 = run_callback fs2 b2 \<and>
         map_sum id (\<lambda>(b', allObjects'). (mesh b', velocity b', allObjects'))
           (useFrame_callback s allObjects (setIsHovered h1 b1)) =
         map_sum id (\<lambda>(b', allObjects'). (mesh b', velocity b', allObjects'))
           (useFrame_callback s allObjects (setIsHovered h2 b2)) \<and>
         scale_target (setIsHovered h1 b1) = (if h1 then 1.1 else 1)"
proof -
  have "run_callback fs1 b1 = run_callback fs1 (setIsHovered False b1)"
    by (simp add: run_callback_setIsHovered)
  also have "\<dots> = run_callback fs1 (setIsHovered False b2)"
    using same_motion [OF assms(1-3)] by simp
  also have "\<dots> = run_callback fs2 b2"
    using run_callback_hover [OF assms(4)] by (simp add: run_callback_setIsHovered)
  finally have runs: "run_callback fs1 b1 = run_callback fs2 b2" .
  have "setIsHovered h2 b2 = setIsHovered h2 (setIsHovered h1 b1)"
    using same_motion [OF assms(1-3), of h2] by (simp add: setIsHovered_twice)
  then have one: "map_sum id (\<lambda>(b', allObjects'). (mesh b', velocity b', allObjects'))
           (useFrame_callback s allObjects (setIsHovered h1 b1)) =
         map_sum id (\<lambda>(b', allObjects'). (mesh b', velocity b', allObjects'))
           (useFrame_callback s allObjects (setIsHovered h2 b2))"
    by (cases "useFrame_callback s allObjects (setIsHovered h1 b1)")
       (auto simp: useFrame_callback_setIsHovered [of s allObjects h2 "setIsHovered h1 b1"]
          setIsHovered_fields)
  show ?thesis using runs one by (simp add: scale_target_def setIsHovered_fields)
qed


theorem hover_has_no_effect_on_motion_witness:
  "run_callback [(far_pointer, [Vector3 10 0 0], True), (far_pointer, [Vector3 9.98 0 0], False)]
     (on_axis 10 0) =
   [Inr (Some (Vector3 9.98 0 0), Vector3 (-0.02) 0 0, [Vector3 9.98 0 0]),
    Inr (Some (Vector3 9.941 0 0), Vector3 (-0.039) 0 0, [Vector3 9.941 0 0])] \<and>
   run_callback [(far_pointer, [Vector3 10 0 0], False), (far_pointer, [Vector3 9.98 0 0], True)]
     (setIsHovered True (on_axis 10 0)) =
   [Inr (Some (Vector3 9.98 0 0), Vector3 (-0.02) 0 0, [Vector3 9.98 0 0]),
    Inr (Some (Vector3 9.941 0 0), Vector3 (-0.039) 0 0, [Vector3 9.941 0 0])] \<and>
   scale_target (setIsHovered True (on_axis 10 0)) = 1.1 \<and>
   scale_target (setIsHovered False (on_axis 10 0)) = 1"
proof -
  let ?fs1 = "[(far_pointer, [Vector3 10 0 0], True), (far_pointer, [Vector3 9.98 0 0], False)]"
  let ?fs2 = "[(far_pointer, [Vector3 10 0 0], False), (far_pointer, [Vector3 9.98 0 0], True)]"
  have uv: "update_velocity far_pointer [Vector3 10 0 0] 0 (Vector3 10 0 0) (Vector3 0 0 0)
              = Inr (Vector3 (-0.02) 0 0)"
    "update_velocity far_pointer [Vector3 9.98 0 0] 0 (Vector3 9.98 0 0) (Vector3 (-0.02) 0 0)
              = Inr (Vector3 (-0.039) 0 0)"
    by (simp_all add: update_velocity_def gravity_def repulsion_def avoidance_def Let_def vec_simps
        far_pointer_def calculateDistance_x_axis normalize_v_x_axis)
  have c: "useFrame_callback far_pointer [Vector3 10 0 0] (on_axis 10 0)
             = Inr (on_axis 9.98 (-0.02), [Vector3 9.98 0 0])"
    "useFrame_callback far_pointer [Vector3 9.98 0 0] (on_axis 9.98 (-0.02))
             = Inr (on_axis 9.941 (-0.039), [Vector3 9.941 0 0])"
    using uv
    by (simp_all add: useFrame_callback_def integrate_def Let_def vec_simps on_axis_def
        calculateDistance_x_axis)
  have r1: "run_callback ?fs1 (on_axis 10 0) =
     [Inr (Some (Vector3 9.98 0 0), Vector3 (-0.02) 0 0, [Vector3 9.98 0 0]),
      Inr (Some (Vector3 9.941 0 0), Vector3 (-0.039) 0 0, [Vector3 9.941 0 0])]"
    using c
    by (simp add: useFrame_callback_setIsHovered setIsHovered_fields)
       (simp add: on_axis_def)
  have "run_callback ?fs1 (on_axis 10 0) = run_callback ?fs2 (setIsHovered True (on_axis 10 0))"
    using hover_has_no_effect_on_motion
      [of "on_axis 10 0" "setIsHovered True (on_axis 10 0)" ?fs1 ?fs2]
    by (simp add: setIsHovered_fields)
  then show ?thesis
    using r1 by (simp add: scale_target_def setIsHovered_fields)
qed

end
